theory Spec2Isabelle
  imports Complex_Main "HOL-Library.Option_ord"
begin

section \<open>Data model (db/models.py)\<close>

text \<open>
  A \<^verbatim>\<open>datetime\<close> is a clock reading in whole seconds on an integer line. The
  reading of an instant in UTC is the number of seconds from the epoch to the instant;
  the reading of the same instant in the local time of a host is that number plus the
  offset of the host's zone from UTC. Two readings are compared as numbers, as Python
  compares two naive datetimes. Every table of the record store is the
  list of its rows in insertion order. The primary key \<^verbatim>\<open>id\<close> of each model class
  is named after its table here (\<open>er_id\<close>, \<open>user_pk\<close>, \<open>staff_pk\<close>, ...), because the
  classes share field names.
\<close>

type_synonym datetime = int

datatype ExeatRequestStatusEnum = PENDING | APPROVED | DENIED

text \<open>The \<^verbatim>\<open>IntEnum\<close> values: PENDING = 1, APPROVED = 2, DENIED = 3.\<close>

fun status_value :: "ExeatRequestStatusEnum \<Rightarrow> int" where
  "status_value PENDING = 1"
| "status_value APPROVED = 2"
| "status_value DENIED = 3"

text \<open>\<^verbatim>\<open>safe_name\<close>: the name of the member in lower case.\<close>

fun safe_name :: "ExeatRequestStatusEnum \<Rightarrow> string" where
  "safe_name PENDING = ''pending''"
| "safe_name APPROVED = ''approved''"
| "safe_name DENIED = ''denied''"

datatype UserTypeEnum = ADMIN | STUDENT | STAFF | SECURITY_OPERATIVE

text \<open>The \<^verbatim>\<open>IntEnum\<close> values: ADMIN = 1, STUDENT = 2, STAFF = 3, SECURITY_OPERATIVE = 4.\<close>

fun user_type_value :: "UserTypeEnum \<Rightarrow> int" where
  "user_type_value ADMIN = 1"
| "user_type_value STUDENT = 2"
| "user_type_value STAFF = 3"
| "user_type_value SECURITY_OPERATIVE = 4"

fun UserTypeEnum_safe_name :: "UserTypeEnum \<Rightarrow> string" where
  "UserTypeEnum_safe_name ADMIN = ''admin''"
| "UserTypeEnum_safe_name STUDENT = ''student''"
| "UserTypeEnum_safe_name STAFF = ''staff''"
| "UserTypeEnum_safe_name SECURITY_OPERATIVE = ''security_operative''"

record ExeatRequest =
  er_id :: int
  student_id :: int
  leave_start :: datetime
  leave_end :: datetime
  submission_time :: datetime
  reason :: string
  status_id :: int
  staff_id :: "int option"
  staff_review_time :: "datetime option"
  staff_comment :: "string option"

record User =
  user_pk :: int
  first_name :: string
  last_name :: string
  email :: string
  phone_number :: string
  hashed_password :: string
  is_active :: bool
  is_verified :: bool
  user_type_id :: int
  profile_picture_id :: "string option"
  time_joined :: datetime

record Guardian =
  guardian_pk :: int
  guardian_name :: string
  guardian_phone_number :: string

record Student =
  student_pk :: int
  student_user_id :: int
  matriculation_number :: string
  course_of_study :: string
  guardian_id :: int
  guardian_relationship :: string

record Staff =
  staff_pk :: int
  staff_user_id :: int
  staff_number :: string
  staff_designation :: string

record SecurityOperative =
  security_pk :: int
  security_user_id :: int
  security_id :: string
  security_designation :: string

record RevokedToken =
  revoked_sig :: string
  revoked_exp :: datetime

record database =
  users :: "User list"
  guardians :: "Guardian list"
  students :: "Student list"
  staff_members :: "Staff list"
  security_operatives :: "SecurityOperative list"
  exeat_requests :: "ExeatRequest list"
  revoked_tokens :: "RevokedToken list"

text \<open>
  Every way a call can fail: the HTTP errors the routers raise (status code and detail),
  the exception of db/crud.py, the exceptions of the query layer
  (\<^verbatim>\<open>one()\<close>, \<^verbatim>\<open>one_or_none()\<close>, and \<^verbatim>\<open>IntegrityError\<close> for a row
  that breaks a constraint of its table), the Python built-in exceptions that the
  modelled code can hit, and the rejection of a request body by its schema (with the
  name of the offending field).
\<close>

datatype error =
    HTTPException int string
  | ExeatRequestNotFound int
  | NoResultFound
  | MultipleResultsFound
  | IntegrityError
  | KeyError string
  | IndexError
  | TypeError
  | ZeroDivisionError
  | RequestValidationError string

definition error_exeat_request_not_found :: error where
  "error_exeat_request_not_found = HTTPException 404 ''Exeat request not found''"

definition error_invalid_credentials :: error where
  "error_invalid_credentials = HTTPException 401 ''Not authenticated.''"

definition error_request_not_pending :: error where
  "error_request_not_pending = HTTPException 400 ''Request is not pending''"

section \<open>Record store operations on exeat requests (db/crud.py)\<close>

text \<open>
  \<^verbatim>\<open>db.get(ExeatRequest, id)\<close> is the row with that primary key, if any;
  \<^verbatim>\<open>get_exeat_request\<close> raises \<^verbatim>\<open>ExeatRequestNotFound\<close> when there is none, so it never
  returns \<^verbatim>\<open>None\<close>.
\<close>

definition get_exeat_request :: "database \<Rightarrow> int \<Rightarrow> error + ExeatRequest" where
  "get_exeat_request db exeat_request_id =
     (case find (\<lambda>r. er_id r = exeat_request_id) (exeat_requests db) of
        None \<Rightarrow> Inl (ExeatRequestNotFound exeat_request_id)
      | Some r \<Rightarrow> Inr r)"

text \<open>
  \<^verbatim>\<open>db.merge(x); db.commit()\<close>: the row with the primary key of \<open>x\<close> becomes \<open>x\<close>;
  a row is added when the table has none with that key.
\<close>

definition merge_exeat_request :: "ExeatRequest \<Rightarrow> database \<Rightarrow> database" where
  "merge_exeat_request x db =
     (if \<exists>r \<in> set (exeat_requests db). er_id r = er_id x
      then db\<lparr>exeat_requests := map (\<lambda>r. if er_id r = er_id x then x else r) (exeat_requests db)\<rparr>
      else db\<lparr>exeat_requests := exeat_requests db @ [x]\<rparr>)"

section \<open>Exeat lifecycle: review by staff (routers/staff.py)\<close>

text \<open>
  Both handlers return the outcome of the call together with the record store after it.
  \<open>now\<close> is the reading of \<^verbatim>\<open>datetime.now(UTC)\<close> taken by the call. The branch
  \<^verbatim>\<open>if not exeat_request\<close> of the source is never taken: \<^verbatim>\<open>get_exeat_request\<close> has
  raised already, and that exception is the outcome of the call.
\<close>

definition approve_exeat_request ::
  "database \<Rightarrow> Staff \<Rightarrow> int \<Rightarrow> string option \<Rightarrow> datetime \<Rightarrow> (error + ExeatRequest) \<times> database" where
  "approve_exeat_request db staff exeat_id comment now =
     (case get_exeat_request db exeat_id of
        Inl e \<Rightarrow> (Inl e, db)
      | Inr exeat_request \<Rightarrow>
          if status_id exeat_request \<noteq> status_value PENDING
          then (Inl (HTTPException 400 ''Request is not pending''), db)
          else
            let exeat_request = exeat_request
                  \<lparr>status_id := status_value APPROVED,
                   staff_id := Some (staff_pk staff),
                   staff_comment := comment,
                   staff_review_time := Some now\<rparr>
            in (Inr exeat_request, merge_exeat_request exeat_request db))"

definition deny_exeat_request ::
  "database \<Rightarrow> Staff \<Rightarrow> int \<Rightarrow> string option \<Rightarrow> datetime \<Rightarrow> (error + ExeatRequest) \<times> database" where
  "deny_exeat_request db staff exeat_id comment now =
     (case get_exeat_request db exeat_id of
        Inl e \<Rightarrow> (Inl e, db)
      | Inr exeat_request \<Rightarrow>
          if status_id exeat_request \<noteq> status_value PENDING
          then (Inl (HTTPException 400 ''Request is not pending''), db)
          else
            let exeat_request = exeat_request
                  \<lparr>status_id := status_value DENIED,
                   staff_id := Some (staff_pk staff),
                   staff_comment := comment,
                   staff_review_time := Some now\<rparr>
            in (Inr exeat_request, merge_exeat_request exeat_request db))"

text \<open>The two review endpoints, selected by the decision of the reviewer.\<close>

datatype decision = Approve | Deny

fun review ::
  "decision \<Rightarrow> database \<Rightarrow> Staff \<Rightarrow> int \<Rightarrow> string option \<Rightarrow> datetime \<Rightarrow> (error + ExeatRequest) \<times> database" where
  "review Approve db staff exeat_id comment now = approve_exeat_request db staff exeat_id comment now"
| "review Deny db staff exeat_id comment now = deny_exeat_request db staff exeat_id comment now"

fun decided_status :: "decision \<Rightarrow> ExeatRequestStatusEnum" where
  "decided_status Approve = APPROVED"
| "decided_status Deny = DENIED"

text \<open>
  What either handler writes into a pending request: the decided status, the id of the
  reviewer, the comment and the time of the call.
\<close>

definition reviewed_by :: "decision \<Rightarrow> Staff \<Rightarrow> string option \<Rightarrow> datetime \<Rightarrow> ExeatRequest \<Rightarrow> ExeatRequest" where
  "reviewed_by d staff comment now r =
     r\<lparr>status_id := status_value (decided_status d),
       staff_id := Some (staff_pk staff),
       staff_comment := comment,
       staff_review_time := Some now\<rparr>"

section \<open>Role-scoped query and pagination (routers/common.py)\<close>

text \<open>
  The sort expression of \<^verbatim>\<open>last_updated\<close> is
  \<^verbatim>\<open>or_(ExeatRequest.staff_review_time, ExeatRequest.submission_time)\<close>: the SQL
  disjunction \<^verbatim>\<open>staff_review_time OR submission_time\<close>, the same \<^verbatim>\<open>or_\<close> that
  routers/staff.py uses to join two conditions. Its value is an SQL truth value
  (\<open>None\<close> is NULL), obtained from the three-valued disjunction of its operands read
  as truth values. A stored datetime read as a truth value is true when the number it
  stands for is not zero.
\<close>

definition sql_bool :: "datetime \<Rightarrow> bool" where
  "sql_bool t = (t \<noteq> 0)"

fun sql_or :: "bool option \<Rightarrow> bool option \<Rightarrow> bool option" where
  "sql_or (Some True) b = Some True"
| "sql_or a (Some True) = Some True"
| "sql_or (Some False) (Some False) = Some False"
| "sql_or a b = None"

definition last_updated_key :: "ExeatRequest \<Rightarrow> bool option" where
  "last_updated_key r =
     sql_or (map_option sql_bool (staff_review_time r)) (Some (sql_bool (submission_time r)))"

text \<open>
  The sort key of \<^verbatim>\<open>last_updated\<close> in the words of the specification, for
  comparison with the key of the code: the review time if present, else the submission
  time.
\<close>

definition spec_last_updated :: "ExeatRequest \<Rightarrow> datetime" where
  "spec_last_updated r =
     (case staff_review_time r of Some t \<Rightarrow> t | None \<Rightarrow> submission_time r)"

text \<open>
  \<^verbatim>\<open>order_by(asc(key))\<close> and \<^verbatim>\<open>order_by(desc(key))\<close>: the rows in the order of
  their keys (NULL first when ascending); rows with equal keys keep the order of the table.
\<close>

definition order_by :: "('a \<Rightarrow> 'k::linorder) \<Rightarrow> bool \<Rightarrow> 'a list \<Rightarrow> 'a list" where
  "order_by key ascending rows =
     (if ascending then sort_key key rows else rev (sort_key key (rev rows)))"

datatype sort_attribute = Sort_last_updated | Sort_leave_start | Sort_leave_end

fun order_exeats :: "sort_attribute \<Rightarrow> bool \<Rightarrow> ExeatRequest list \<Rightarrow> ExeatRequest list" where
  "order_exeats Sort_last_updated ascending rows = order_by last_updated_key ascending rows"
| "order_exeats Sort_leave_start ascending rows = order_by leave_start ascending rows"
| "order_exeats Sort_leave_end ascending rows = order_by leave_end ascending rows"

text \<open>
  The query that \<^verbatim>\<open>paginated_exeats_query\<close> builds before it paginates: the rows of
  the table that satisfy the caller's \<^verbatim>\<open>where\<close> clause and, when a status is given,
  have that status, in the requested order. Every member of the status enumeration is
  truthy, so \<^verbatim>\<open>if status_id\<close> only asks whether a status was given.
\<close>

definition status_matches :: "ExeatRequestStatusEnum option \<Rightarrow> ExeatRequest \<Rightarrow> bool" where
  "status_matches status r =
     (case status of None \<Rightarrow> True | Some s \<Rightarrow> status_id r = status_value s)"

definition filtered_exeats ::
  "database \<Rightarrow> (ExeatRequest \<Rightarrow> bool) \<Rightarrow> ExeatRequestStatusEnum option \<Rightarrow>
   sort_attribute \<Rightarrow> bool \<Rightarrow> ExeatRequest list" where
  "filtered_exeats db query status sort_by ascending =
     order_exeats sort_by ascending
       (filter (\<lambda>r. query r \<and> status_matches status r) (exeat_requests db))"

text \<open>
  \<^verbatim>\<open>offset(start)\<close> and \<^verbatim>\<open>limit(page_size)\<close> on the ordered rows. A negative offset
  skips nothing and a negative limit keeps every row, as SQLite reads them.
\<close>

definition sql_offset :: "int \<Rightarrow> 'a list \<Rightarrow> 'a list" where
  "sql_offset start rows = drop (nat start) rows"

definition sql_limit :: "int \<Rightarrow> 'a list \<Rightarrow> 'a list" where
  "sql_limit n rows = (if n < 0 then rows else take (nat n) rows)"

record PaginatedExeatsResponse =
  total_items :: int
  total_pages :: int
  page_size :: int
  current_page :: int
  items :: "ExeatRequest list"

text \<open>
  Python's \<^verbatim>\<open>//\<close> is floor division, as \<open>div\<close> on \<open>int\<close>, and raises
  \<^verbatim>\<open>ZeroDivisionError\<close> for a zero divisor.
\<close>

definition paginated_exeats_query ::
  "database \<Rightarrow> (ExeatRequest \<Rightarrow> bool) \<Rightarrow> int \<Rightarrow> int \<Rightarrow> ExeatRequestStatusEnum option \<Rightarrow>
   sort_attribute \<Rightarrow> bool \<Rightarrow> error + PaginatedExeatsResponse" where
  "paginated_exeats_query db query page per_page status sort_by ascending =
     (let rows = filtered_exeats db query status sort_by ascending;
          n_items = int (length rows)
      in if per_page = 0 then Inl ZeroDivisionError
         else
           let n_pages = (n_items + per_page - 1) div per_page;
               page = min page n_pages;
               start = (page - 1) * per_page
           in Inr \<lparr>total_items = n_items,
                   total_pages = n_pages,
                   page_size = per_page,
                   current_page = page,
                   items = sql_limit per_page (sql_offset start rows)\<rparr>)"

section \<open>Staff listing (routers/staff.py)\<close>

text \<open>
  \<^verbatim>\<open>str.upper()\<close>. A string is the list of the bytes of its UTF-8 encoding. Python
  maps the letters \<open>a\<close> to \<open>z\<close> to \<open>A\<close> to \<open>Z\<close>, and ten characters outside ASCII to
  ASCII letters: the dotless i (bytes C4 B1) to \<open>I\<close>, the long s (C5 BF) to \<open>S\<close>, the
  sharp s (C3 9F) to \<open>SS\<close>, and the ligatures U+FB00 to U+FB06 (EF AC 80 to EF AC 86) to
  \<open>FF\<close>, \<open>FI\<close>, \<open>FL\<close>, \<open>FFI\<close>, \<open>FFL\<close>, \<open>ST\<close> and \<open>ST\<close>. The upper-case form of every
  other character outside ASCII has a character outside ASCII, so that a name with such
  a character is never the name of a member of an enumeration; these characters are left
  as they are here.
\<close>

definition ascii_upper :: "char \<Rightarrow> char" where
  "ascii_upper c =
     (let n = (of_char c :: nat) in if 97 \<le> n \<and> n \<le> 122 then char_of (n - 32) else c)"

definition upper_two :: "char \<Rightarrow> char \<Rightarrow> string option" where
  "upper_two a b =
     (let m = (of_char a :: nat); n = (of_char b :: nat)
      in if m = 195 \<and> n = 159 then Some ''SS''
         else if m = 196 \<and> n = 177 then Some ''I''
         else if m = 197 \<and> n = 191 then Some ''S''
         else None)"

definition upper_three :: "char \<Rightarrow> char \<Rightarrow> char \<Rightarrow> string option" where
  "upper_three a b c =
     (let l = (of_char a :: nat); m = (of_char b :: nat); n = (of_char c :: nat)
      in if l = 239 \<and> m = 172 then
           (if n = 128 then Some ''FF''
            else if n = 129 then Some ''FI''
            else if n = 130 then Some ''FL''
            else if n = 131 then Some ''FFI''
            else if n = 132 then Some ''FFL''
            else if n = 133 \<or> n = 134 then Some ''ST''
            else None)
         else None)"

fun str_upper :: "string \<Rightarrow> string" where
  "str_upper (a # b # c # cs) =
     (case upper_three a b c of
        Some u \<Rightarrow> u @ str_upper cs
      | None \<Rightarrow>
          (case upper_two a b of
             Some u \<Rightarrow> u @ str_upper (c # cs)
           | None \<Rightarrow> ascii_upper a # str_upper (b # c # cs)))"
| "str_upper [a, b] =
     (case upper_two a b of
        Some u \<Rightarrow> u
      | None \<Rightarrow> [ascii_upper a, ascii_upper b])"
| "str_upper [a] = [ascii_upper a]"
| "str_upper [] = []"

text \<open>
  \<^verbatim>\<open>from_safe_name\<close> looks the upper-cased name up among the members of the
  enumeration and raises \<^verbatim>\<open>KeyError\<close> for any other name.
\<close>

definition from_safe_name :: "string \<Rightarrow> error + ExeatRequestStatusEnum" where
  "from_safe_name name =
     (let n = str_upper name
      in if n = ''PENDING'' then Inr PENDING
         else if n = ''APPROVED'' then Inr APPROVED
         else if n = ''DENIED'' then Inr DENIED
         else Inl (KeyError n))"

text \<open>
  \<^verbatim>\<open>ExeatRequestStatusEnum.from_safe_name(_status) if _status else None\<close>: no filter
  for an absent or empty parameter.
\<close>

definition status_parameter :: "string option \<Rightarrow> error + ExeatRequestStatusEnum option" where
  "status_parameter s =
     (case s of
        None \<Rightarrow> Inr None
      | Some name \<Rightarrow>
          if name = [] then Inr None
          else (case from_safe_name name of Inl e \<Rightarrow> Inl e | Inr st \<Rightarrow> Inr (Some st)))"

definition staff_get_exeats ::
  "database \<Rightarrow> Staff \<Rightarrow> int \<Rightarrow> int \<Rightarrow> string option \<Rightarrow> sort_attribute \<Rightarrow> bool \<Rightarrow>
   error + PaginatedExeatsResponse" where
  "staff_get_exeats db staff page per_page status sort_by ascending =
     (case status_parameter status of
        Inl e \<Rightarrow> Inl e
      | Inr st \<Rightarrow>
          paginated_exeats_query db
            (\<lambda>r. staff_id r = Some (staff_pk staff) \<or> staff_id r = None)
            page per_page st sort_by ascending)"

text \<open>
  The single-item fetch of the staff router: \<^verbatim>\<open>db.exec(query).one()\<close> returns the
  only row of the result, and the endpoint turns \<^verbatim>\<open>NoResultFound\<close> into the 404
  error; \<^verbatim>\<open>one()\<close> raises \<^verbatim>\<open>MultipleResultsFound\<close> for more than one row.
\<close>

definition staff_get_exeat :: "database \<Rightarrow> Staff \<Rightarrow> int \<Rightarrow> error + ExeatRequest" where
  "staff_get_exeat db staff exeat_id =
     (case filter (\<lambda>r. er_id r = exeat_id \<and>
                        (staff_id r = Some (staff_pk staff) \<or> staff_id r = None))
             (exeat_requests db) of
        [] \<Rightarrow> Inl error_exeat_request_not_found
      | [r] \<Rightarrow> Inr r
      | _ \<Rightarrow> Inl MultipleResultsFound)"

section \<open>Security endpoints (routers/security.py)\<close>

definition security_get_exeats ::
  "database \<Rightarrow> int \<Rightarrow> int \<Rightarrow> sort_attribute \<Rightarrow> bool \<Rightarrow> error + PaginatedExeatsResponse" where
  "security_get_exeats db page per_page sort_by ascending =
     paginated_exeats_query db (\<lambda>r. True) page per_page (Some APPROVED) sort_by ascending"

text \<open>
  The single-item fetch of the security router handles the result as the one of the staff
  router does. Its query selects on the id alone.
\<close>

definition security_get_exeat :: "database \<Rightarrow> int \<Rightarrow> error + ExeatRequest" where
  "security_get_exeat db exeat_id =
     (case filter (\<lambda>r. er_id r = exeat_id) (exeat_requests db) of
        [] \<Rightarrow> Inl error_exeat_request_not_found
      | [r] \<Rightarrow> Inr r
      | _ \<Rightarrow> Inl MultipleResultsFound)"

section \<open>Submission by a student (routers/student.py)\<close>

record ExeatRequestCreate =
  create_leave_start :: datetime
  create_leave_end :: datetime
  create_reason :: string

text \<open>
  The schema of the request body: \<^verbatim>\<open>reason\<close> is declared with
  \<^verbatim>\<open>max_length=255\<close>, so a body with a longer reason is rejected before the
  handler runs. The length of a string is its number of characters.
\<close>

definition validate_ExeatRequestCreate ::
  "datetime \<Rightarrow> datetime \<Rightarrow> string \<Rightarrow> error + ExeatRequestCreate" where
  "validate_ExeatRequestCreate start end_time text =
     (if length text > 255 then Inl (RequestValidationError ''reason'')
      else Inr \<lparr>create_leave_start = start, create_leave_end = end_time, create_reason = text\<rparr>)"

text \<open>The key the store gives a new row: one more than the largest key in the table.\<close>

definition next_exeat_id :: "ExeatRequest list \<Rightarrow> int" where
  "next_exeat_id rows = fold (\<lambda>r m. max (er_id r) m) rows 0 + 1"

definition submit_exeat_request ::
  "ExeatRequestCreate \<Rightarrow> database \<Rightarrow> Student \<Rightarrow> datetime \<Rightarrow> ExeatRequest \<times> database" where
  "submit_exeat_request exeat_request db current_student now =
     (let new_exeat_request =
            \<lparr>er_id = next_exeat_id (exeat_requests db),
             student_id = student_pk current_student,
             leave_start = create_leave_start exeat_request,
             leave_end = create_leave_end exeat_request,
             submission_time = now,
             reason = create_reason exeat_request,
             status_id = status_value PENDING,
             staff_id = None,
             staff_review_time = None,
             staff_comment = None\<rparr>
      in (new_exeat_request, db\<lparr>exeat_requests := exeat_requests db @ [new_exeat_request]\<rparr>))"

text \<open>The endpoint \<^verbatim>\<open>POST /student/submit\<close>: the body is validated, then the handler runs.\<close>

definition post_submit ::
  "database \<Rightarrow> Student \<Rightarrow> datetime \<Rightarrow> datetime \<Rightarrow> string \<Rightarrow> datetime \<Rightarrow>
   (error + ExeatRequest) \<times> database" where
  "post_submit db current_student start end_time text now =
     (case validate_ExeatRequestCreate start end_time text of
        Inl e \<Rightarrow> (Inl e, db)
      | Inr exeat_request \<Rightarrow>
          (case submit_exeat_request exeat_request db current_student now of
             (new_exeat_request, db') \<Rightarrow> (Inr new_exeat_request, db')))"

section \<open>Revocation ledger (revocation.py)\<close>

text \<open>
  \<^verbatim>\<open>jwt.rsplit(".", 1)\<close> splits at the last dot, or returns the whole string as the
  only element when there is none; element 1 of the result is the signature segment.
\<close>

definition rsplit_dot :: "string \<Rightarrow> string list" where
  "rsplit_dot s =
     (if CHR ''.'' \<in> set s
      then [rev (tl (dropWhile (\<lambda>c. c \<noteq> CHR ''.'') (rev s))),
            rev (takeWhile (\<lambda>c. c \<noteq> CHR ''.'') (rev s))]
      else [s])"

definition jwt_sig :: "string \<Rightarrow> error + string" where
  "jwt_sig jwt = (case rsplit_dot jwt of [a, b] \<Rightarrow> Inr b | _ \<Rightarrow> Inl IndexError)"

definition revoke_jwt :: "database \<Rightarrow> string \<Rightarrow> datetime \<Rightarrow> error + database" where
  "revoke_jwt db jwt exp_time =
     (case jwt_sig jwt of
        Inl e \<Rightarrow> Inl e
      | Inr s \<Rightarrow>
          let entry = \<lparr>revoked_sig = s, revoked_exp = exp_time\<rparr>
          in Inr (if find (\<lambda>t. revoked_sig t = s) (revoked_tokens db) = None
                  then db\<lparr>revoked_tokens := revoked_tokens db @ [entry]\<rparr>
                  else db\<lparr>revoked_tokens :=
                          map (\<lambda>t. if revoked_sig t = s then entry else t) (revoked_tokens db)\<rparr>))"

definition is_jwt_revoked :: "database \<Rightarrow> string \<Rightarrow> error + bool" where
  "is_jwt_revoked db jwt =
     (case jwt_sig jwt of
        Inl e \<Rightarrow> Inl e
      | Inr s \<Rightarrow> Inr (find (\<lambda>t. revoked_sig t = s) (revoked_tokens db) \<noteq> None))"

text \<open>
  The sweep. \<^verbatim>\<open>tokens\<close> is the query for the rows with \<^verbatim>\<open>exp < now\<close>;
  \<^verbatim>\<open>tokens.one_or_none()\<close> is \<^verbatim>\<open>None\<close> for no row, the row when there is exactly
  one, and raises \<^verbatim>\<open>MultipleResultsFound\<close> otherwise; \<^verbatim>\<open>tokens.delete()\<close> deletes
  every row of the query.
\<close>

definition cleanup_expired_revoked_tokens :: "database \<Rightarrow> datetime \<Rightarrow> (error + unit) \<times> database" where
  "cleanup_expired_revoked_tokens db now =
     (case filter (\<lambda>t. revoked_exp t < now) (revoked_tokens db) of
        [] \<Rightarrow> (Inr (), db)
      | [t] \<Rightarrow> (Inr (), db\<lparr>revoked_tokens := filter (\<lambda>t. \<not> revoked_exp t < now) (revoked_tokens db)\<rparr>)
      | _ \<Rightarrow> (Inl MultipleResultsFound, db))"

section \<open>Identity and role resolution (routers/auth.py)\<close>

text \<open>
  The claims of a decoded token that the code reads, each absent or present.
  \<^verbatim>\<open>decode\<close> of the token library, with the secret key of the server, is a parameter:
  it returns the payload of a well-formed, correctly signed, unexpired token and nothing
  for any other token.
\<close>

record token_payload =
  payload_sub :: "string option"
  payload_iat :: "int option"
  payload_exp :: "int option"

definition decoded_token :: "(string \<Rightarrow> token_payload option) \<Rightarrow> string \<Rightarrow> error + token_payload" where
  "decoded_token decode token =
     (case decode token of None \<Rightarrow> Inl error_invalid_credentials | Some p \<Rightarrow> Inr p)"

text \<open>
  \<^verbatim>\<open>datetime.fromtimestamp(ts)\<close>, called without a time zone, is the naive reading of
  the instant \<open>ts\<close> in the local time of the host: the UTC reading moved by the offset of
  the host's zone from UTC at that instant, which is a parameter (\<open>0\<close> on a host that
  runs on UTC, \<open>-18000\<close> on one that is five hours behind).
  \<^verbatim>\<open>datetime.fromtimestamp(ts, UTC)\<close>, as \<^verbatim>\<open>revoke_jwt\<close> calls it, is the UTC
  reading, the number \<open>ts\<close> itself.
\<close>

definition datetime_fromtimestamp :: "int \<Rightarrow> int \<Rightarrow> datetime" where
  "datetime_fromtimestamp utc_offset ts = ts + utc_offset"

text \<open>
  \<^verbatim>\<open>get_current_user\<close> reads the issue time of the payload with
  \<^verbatim>\<open>datetime.fromtimestamp(token_payload.get("iat"))\<close>, which raises
  \<^verbatim>\<open>TypeError\<close> for \<^verbatim>\<open>None\<close>; the source calls it before it looks at the
  subject. The reading is compared with the \<^verbatim>\<open>time_joined\<close> of the user, the reading
  that the clock of the database gave when the row was inserted.
\<close>

definition get_current_user ::
  "int \<Rightarrow> database \<Rightarrow> string \<Rightarrow> token_payload \<Rightarrow> error + User" where
  "get_current_user utc_offset db token p =
     (case is_jwt_revoked db token of
        Inl e \<Rightarrow> Inl e
      | Inr revoked \<Rightarrow>
          if revoked then Inl error_invalid_credentials
          else
            (case payload_iat p of
               None \<Rightarrow> Inl TypeError
             | Some ts \<Rightarrow>
                 let iat = datetime_fromtimestamp utc_offset ts
                 in (case payload_sub p of
                       None \<Rightarrow> Inl error_invalid_credentials
                     | Some e \<Rightarrow>
                         (case find (\<lambda>u. email u = e) (users db) of
                            None \<Rightarrow> Inl error_invalid_credentials
                          | Some user \<Rightarrow>
                              if time_joined user > iat then Inl error_invalid_credentials
                              else Inr user))))"

definition PROFILE_UNAUTHORIZED :: string where
  "PROFILE_UNAUTHORIZED = ''User profile type does not have access to this resource.''"

definition get_current_student :: "database \<Rightarrow> User \<Rightarrow> error + Student" where
  "get_current_student db user =
     (case find (\<lambda>s. student_user_id s = user_pk user) (students db) of
        None \<Rightarrow> Inl (HTTPException 403 PROFILE_UNAUTHORIZED)
      | Some student \<Rightarrow> Inr student)"

definition get_current_staff :: "database \<Rightarrow> User \<Rightarrow> error + Staff" where
  "get_current_staff db user =
     (case find (\<lambda>s. staff_user_id s = user_pk user) (staff_members db) of
        None \<Rightarrow> Inl (HTTPException 403 PROFILE_UNAUTHORIZED)
      | Some staff \<Rightarrow> Inr staff)"

definition get_current_security_operative :: "database \<Rightarrow> User \<Rightarrow> error + SecurityOperative" where
  "get_current_security_operative db user =
     (case find (\<lambda>s. security_user_id s = user_pk user) (security_operatives db) of
        None \<Rightarrow> Inl (HTTPException 403 PROFILE_UNAUTHORIZED)
      | Some security_operative \<Rightarrow> Inr security_operative)"

text \<open>
  The dependency chains that guard the endpoints: the token is decoded, the user is
  resolved from it, and the role endpoints then resolve the profile of the user.
  The account, student, staff and security endpoints are behind one of the four;
  \<^verbatim>\<open>/revoke\<close> alone needs only a token that decodes.
\<close>

definition authenticated_user ::
  "(string \<Rightarrow> token_payload option) \<Rightarrow> int \<Rightarrow> database \<Rightarrow> string \<Rightarrow> error + User" where
  "authenticated_user decode utc_offset db token =
     (case decoded_token decode token of
        Inl e \<Rightarrow> Inl e
      | Inr p \<Rightarrow> get_current_user utc_offset db token p)"

definition authenticated_student ::
  "(string \<Rightarrow> token_payload option) \<Rightarrow> int \<Rightarrow> database \<Rightarrow> string \<Rightarrow> error + Student" where
  "authenticated_student decode utc_offset db token =
     (case authenticated_user decode utc_offset db token of
        Inl e \<Rightarrow> Inl e
      | Inr u \<Rightarrow> get_current_student db u)"

definition authenticated_staff ::
  "(string \<Rightarrow> token_payload option) \<Rightarrow> int \<Rightarrow> database \<Rightarrow> string \<Rightarrow> error + Staff" where
  "authenticated_staff decode utc_offset db token =
     (case authenticated_user decode utc_offset db token of
        Inl e \<Rightarrow> Inl e
      | Inr u \<Rightarrow> get_current_staff db u)"

definition authenticated_security_operative ::
  "(string \<Rightarrow> token_payload option) \<Rightarrow> int \<Rightarrow> database \<Rightarrow> string \<Rightarrow>
   error + SecurityOperative" where
  "authenticated_security_operative decode utc_offset db token =
     (case authenticated_user decode utc_offset db token of
        Inl e \<Rightarrow> Inl e
      | Inr u \<Rightarrow> get_current_security_operative db u)"

text \<open>
  \<^verbatim>\<open>POST /revoke\<close>: the token is decoded and revoked with the expiry of its
  payload; \<^verbatim>\<open>token_payload["exp"]\<close> raises \<^verbatim>\<open>KeyError\<close> when the payload has
  none. The ledger is not consulted.
\<close>

definition logout ::
  "(string \<Rightarrow> token_payload option) \<Rightarrow> database \<Rightarrow> string \<Rightarrow> (error + unit) \<times> database" where
  "logout decode db token =
     (case decoded_token decode token of
        Inl e \<Rightarrow> (Inl e, db)
      | Inr p \<Rightarrow>
          (case payload_exp p of
             None \<Rightarrow> (Inl (KeyError ''exp''), db)
           | Some exp_time \<Rightarrow>
               (case revoke_jwt db token exp_time of
                  Inl e \<Rightarrow> (Inl e, db)
                | Inr db' \<Rightarrow> (Inr (), db'))))"

section \<open>Signup and login (routers/auth.py)\<close>

text \<open>
  The parameters of this section stand for what the code takes from its libraries and
  its clocks. \<open>EmailStr\<close> validates an address and returns it in normal form, or nothing
  for a string that is no address. \<open>hashpw\<close>, with the salt that \<^verbatim>\<open>gensalt()\<close>
  returned, and \<open>checkpw\<close> are the functions of bcrypt. \<open>encode\<close> is the token encoder
  with the secret key of the server. \<open>now\<close> is the reading of
  \<^verbatim>\<open>datetime.now(UTC)\<close>, and \<open>joined\<close> is the reading that the clock of the database
  gives for \<^verbatim>\<open>time_joined\<close>.
\<close>

definition ACCESS_TOKEN_EXPIRE_MINUTES :: int where
  "ACCESS_TOKEN_EXPIRE_MINUTES = 30"

text \<open>
  \<^verbatim>\<open>create_access_token\<close>: the issue time and the expiry, thirty minutes later, are
  added to the claims given, and the result is encoded. The token library writes both
  as seconds since the epoch. The endpoints call it with the claims
  \<^verbatim>\<open>{"sub": user.email}\<close>.
\<close>

definition sub_claim :: "string \<Rightarrow> token_payload" where
  "sub_claim e = \<lparr>payload_sub = Some e, payload_iat = None, payload_exp = None\<rparr>"

definition to_encode :: "int \<Rightarrow> token_payload \<Rightarrow> token_payload" where
  "to_encode now data =
     data\<lparr>payload_exp := Some (now + ACCESS_TOKEN_EXPIRE_MINUTES * 60), payload_iat := Some now\<rparr>"

definition create_access_token :: "(token_payload \<Rightarrow> string) \<Rightarrow> int \<Rightarrow> token_payload \<Rightarrow> string" where
  "create_access_token encode now data = encode (to_encode now data)"

text \<open>
  \<^verbatim>\<open>authenticate_user\<close>: the address must pass the validation of \<^verbatim>\<open>EmailStr\<close>,
  whose result is dropped; the user is looked up by the address as it was typed.
\<close>

definition authenticate_user ::
  "(string \<Rightarrow> string option) \<Rightarrow> (string \<Rightarrow> string \<Rightarrow> bool) \<Rightarrow> database \<Rightarrow> string \<Rightarrow> string \<Rightarrow>
   User option" where
  "authenticate_user EmailStr checkpw db username password =
     (case EmailStr username of
        None \<Rightarrow> None
      | Some validated \<Rightarrow>
          (case find (\<lambda>u. email u = username) (users db) of
             None \<Rightarrow> None
           | Some user \<Rightarrow>
               if \<not> checkpw password (hashed_password user) then None else Some user))"

text \<open>\<^verbatim>\<open>POST /token\<close>; the result is the access token of the response.\<close>

definition login ::
  "(string \<Rightarrow> string option) \<Rightarrow> (string \<Rightarrow> string \<Rightarrow> bool) \<Rightarrow> (token_payload \<Rightarrow> string) \<Rightarrow> int \<Rightarrow>
   database \<Rightarrow> string \<Rightarrow> string \<Rightarrow> error + string" where
  "login EmailStr checkpw encode now db username password =
     (case authenticate_user EmailStr checkpw db username password of
        None \<Rightarrow> Inl (HTTPException 401 ''Incorrect email or password'')
      | Some user \<Rightarrow> Inr (create_access_token encode now (sub_claim (email user))))"

text \<open>
  The body of \<^verbatim>\<open>POST /signup\<close>. An optional field holds a value or \<^verbatim>\<open>None\<close>;
  \<open>model_fields_set\<close> is the list of the names of the fields that the body gives, with
  a value or with \<^verbatim>\<open>null\<close>.
\<close>

record UserCreate =
  uc_user_type :: string
  uc_email :: string
  uc_password :: string
  uc_first_name :: string
  uc_last_name :: string
  uc_phone_number :: string
  uc_is_active :: bool
  uc_is_verified :: bool
  uc_matriculation_number :: "string option"
  uc_course_of_study :: "string option"
  uc_guardian_name :: "string option"
  uc_guardian_phone_number :: "string option"
  uc_guardian_relationship :: "string option"
  uc_staff_id :: "string option"
  uc_designation :: "string option"
  uc_security_id :: "string option"
  model_fields_set :: "string list"

text \<open>
  The schema: the user type is one of the safe names other than that of the
  administrator, the address is validated and replaced by its normal form, and the
  validator \<^verbatim>\<open>validate_based_on_user_type\<close> wants the fields of the role among the
  fields that the body gives. The error carries the name of the first check that
  failed.
\<close>

definition unset_check :: "UserCreate \<Rightarrow> string list \<Rightarrow> string list" where
  "unset_check self names = filter (\<lambda>f. f \<notin> set (model_fields_set self)) names"

definition validate_based_on_user_type :: "UserCreate \<Rightarrow> error + UserCreate" where
  "validate_based_on_user_type self =
     (let unset =
            (if uc_user_type self = UserTypeEnum_safe_name STUDENT
             then unset_check self
                    [''matriculation_number'', ''course_of_study'', ''guardian_name'',
                     ''guardian_phone_number'', ''guardian_relationship'']
             else if uc_user_type self = UserTypeEnum_safe_name STAFF
             then unset_check self [''staff_id'', ''designation'']
             else if uc_user_type self = UserTypeEnum_safe_name SECURITY_OPERATIVE
             then unset_check self [''security_id'', ''designation'']
             else [])
      in if unset \<noteq> [] then Inl (RequestValidationError ''missing_fields'') else Inr self)"

definition validate_UserCreate ::
  "(string \<Rightarrow> string option) \<Rightarrow> UserCreate \<Rightarrow> error + UserCreate" where
  "validate_UserCreate EmailStr body =
     (if uc_user_type body \<notin>
           set (map UserTypeEnum_safe_name [STUDENT, STAFF, SECURITY_OPERATIVE])
      then Inl (RequestValidationError ''user_type'')
      else (case EmailStr (uc_email body) of
              None \<Rightarrow> Inl (RequestValidationError ''email'')
            | Some e \<Rightarrow> validate_based_on_user_type (body\<lparr>uc_email := e\<rparr>)))"

text \<open>
  \<^verbatim>\<open>UserTypeEnum.from_safe_name\<close>, as the one of the request status: a name of no
  member raises \<^verbatim>\<open>KeyError\<close>.
\<close>

definition UserTypeEnum_from_safe_name :: "string \<Rightarrow> error + UserTypeEnum" where
  "UserTypeEnum_from_safe_name name =
     (let n = str_upper name
      in if n = ''ADMIN'' then Inr ADMIN
         else if n = ''STUDENT'' then Inr STUDENT
         else if n = ''STAFF'' then Inr STAFF
         else if n = ''SECURITY_OPERATIVE'' then Inr SECURITY_OPERATIVE
         else Inl (KeyError n))"

text \<open>
  The key the store gives a new row of a table with the given keys: one more than the
  largest. \<^verbatim>\<open>db.delete(user); db.commit()\<close> removes the row of the user.
\<close>

definition next_key :: "int list \<Rightarrow> int" where
  "next_key keys = fold max keys 0 + 1"

definition delete_user :: "User \<Rightarrow> database \<Rightarrow> database" where
  "delete_user user db = db\<lparr>users := filter (\<lambda>u. user_pk u \<noteq> user_pk user) (users db)\<rparr>"

text \<open>
  The second half of \<^verbatim>\<open>signup\<close>: the profile of the role is built and added. A
  column of the tables \<^verbatim>\<open>guardian\<close>, \<^verbatim>\<open>student\<close>, \<^verbatim>\<open>staff\<close> and
  \<^verbatim>\<open>security_operative\<close> takes no \<^verbatim>\<open>NULL\<close>, so that a commit of a row with
  \<^verbatim>\<open>None\<close> in it raises \<^verbatim>\<open>IntegrityError\<close>. For the guardian the commit is inside
  the \<^verbatim>\<open>try\<close> block, whose handler deletes the user and answers 400; for the profile
  it is after the block. The last case of the \<^verbatim>\<open>match\<close> is the one of the
  administrator.
\<close>

definition create_profile ::
  "UserTypeEnum \<Rightarrow> UserCreate \<Rightarrow> User \<Rightarrow> database \<Rightarrow> (error + unit) \<times> database" where
  "create_profile user_type user_data user db =
     (case user_type of
        STUDENT \<Rightarrow>
          (case (uc_guardian_name user_data, uc_guardian_phone_number user_data) of
             (Some name, Some phone) \<Rightarrow>
               let guardian = \<lparr>guardian_pk = next_key (map guardian_pk (guardians db)),
                               guardian_name = name, guardian_phone_number = phone\<rparr>;
                   db' = db\<lparr>guardians := guardians db @ [guardian]\<rparr>
               in (case (uc_matriculation_number user_data, uc_course_of_study user_data,
                         uc_guardian_relationship user_data) of
                     (Some matric, Some course, Some relationship) \<Rightarrow>
                       (Inr (),
                        db'\<lparr>students := students db' @
                           [\<lparr>student_pk = next_key (map student_pk (students db')),
                             student_user_id = user_pk user,
                             matriculation_number = matric,
                             course_of_study = course,
                             guardian_id = guardian_pk guardian,
                             guardian_relationship = relationship\<rparr>]\<rparr>)
                   | _ \<Rightarrow> (Inl IntegrityError, db'))
           | _ \<Rightarrow> (Inl (HTTPException 400 ''Error during profile creation.''),
                   delete_user user db))
      | STAFF \<Rightarrow>
          (case (uc_staff_id user_data, uc_designation user_data) of
             (Some number, Some designation) \<Rightarrow>
               (Inr (),
                db\<lparr>staff_members := staff_members db @
                   [\<lparr>staff_pk = next_key (map staff_pk (staff_members db)),
                     staff_user_id = user_pk user,
                     staff_number = number,
                     staff_designation = designation\<rparr>]\<rparr>)
           | _ \<Rightarrow> (Inl IntegrityError, db))
      | SECURITY_OPERATIVE \<Rightarrow>
          (case (uc_security_id user_data, uc_designation user_data) of
             (Some number, Some designation) \<Rightarrow>
               (Inr (),
                db\<lparr>security_operatives := security_operatives db @
                   [\<lparr>security_pk = next_key (map security_pk (security_operatives db)),
                     security_user_id = user_pk user,
                     security_id = number,
                     security_designation = designation\<rparr>]\<rparr>)
           | _ \<Rightarrow> (Inl IntegrityError, db))
      | ADMIN \<Rightarrow>
          (Inl (HTTPException 400 ''Unsupported user type for profile creation.''),
           delete_user user db))"

text \<open>
  The handler of \<^verbatim>\<open>POST /signup\<close>. The \<^verbatim>\<open>KeyError\<close> of
  \<^verbatim>\<open>from_safe_name\<close> is not caught (the handler catches \<^verbatim>\<open>ValueError\<close>). The
  column \<^verbatim>\<open>email\<close> is unique, so the commit of a second user with an address raises
  \<^verbatim>\<open>IntegrityError\<close>. The result is the access token and the user of the response.
\<close>

definition signup ::
  "(string \<Rightarrow> string \<Rightarrow> string) \<Rightarrow> string \<Rightarrow> (token_payload \<Rightarrow> string) \<Rightarrow> datetime \<Rightarrow> int \<Rightarrow>
   UserCreate \<Rightarrow> database \<Rightarrow> (error + string \<times> User) \<times> database" where
  "signup hashpw salt encode joined now user_data db =
     (case UserTypeEnum_from_safe_name (uc_user_type user_data) of
        Inl e \<Rightarrow> (Inl e, db)
      | Inr user_type \<Rightarrow>
          let user = \<lparr>user_pk = next_key (map user_pk (users db)),
                      first_name = uc_first_name user_data,
                      last_name = uc_last_name user_data,
                      email = uc_email user_data,
                      phone_number = uc_phone_number user_data,
                      hashed_password = hashpw (uc_password user_data) salt,
                      is_active = uc_is_active user_data,
                      is_verified = uc_is_verified user_data,
                      user_type_id = user_type_value user_type,
                      profile_picture_id = None,
                      time_joined = joined\<rparr>
          in if \<exists>u \<in> set (users db). email u = email user then (Inl IntegrityError, db)
             else
               (case create_profile user_type user_data user (db\<lparr>users := users db @ [user]\<rparr>) of
                  (Inl e, db') \<Rightarrow> (Inl e, db')
                | (Inr u, db') \<Rightarrow>
                    (Inr (create_access_token encode now (sub_claim (email user)), user), db')))"

text \<open>The endpoint \<^verbatim>\<open>POST /signup\<close>: the body is validated, then the handler runs.\<close>

definition post_signup ::
  "(string \<Rightarrow> string option) \<Rightarrow> (string \<Rightarrow> string \<Rightarrow> string) \<Rightarrow> string \<Rightarrow> (token_payload \<Rightarrow> string) \<Rightarrow>
   datetime \<Rightarrow> int \<Rightarrow> UserCreate \<Rightarrow> database \<Rightarrow> (error + string \<times> User) \<times> database" where
  "post_signup EmailStr hashpw salt encode joined now body db =
     (case validate_UserCreate EmailStr body of
        Inl e \<Rightarrow> (Inl e, db)
      | Inr user_data \<Rightarrow> signup hashpw salt encode joined now user_data db)"

section \<open>Example states\<close>

text \<open>
  A small record store used to evaluate the model: one user, two staff members, a
  student and the guardian of the student, one request that staff member 2 approved at time 200 and one request that is
  still pending, filed at time 300 with a leave window that ends before it starts. The
  ledger of the store is empty; \<open>example_ledger\<close> is a ledger of three revoked tokens.
\<close>

definition example_user :: User where
  "example_user =
     \<lparr>user_pk = 10, first_name = ''Ada'', last_name = ''Obi'', email = ''ada@example.com'',
      phone_number = ''0800'', hashed_password = ''h'', is_active = True, is_verified = False,
      user_type_id = 3, profile_picture_id = None, time_joined = 50\<rparr>"

definition example_staff_a :: Staff where
  "example_staff_a =
     \<lparr>staff_pk = 1, staff_user_id = 10, staff_number = ''S-1'', staff_designation = ''Dean''\<rparr>"

definition example_staff_b :: Staff where
  "example_staff_b =
     \<lparr>staff_pk = 2, staff_user_id = 11, staff_number = ''S-2'', staff_designation = ''Warden''\<rparr>"

definition example_guardian :: Guardian where
  "example_guardian =
     \<lparr>guardian_pk = 1, guardian_name = ''Ngozi Obi'', guardian_phone_number = ''0802''\<rparr>"

definition example_student :: Student where
  "example_student =
     \<lparr>student_pk = 5, student_user_id = 12, matriculation_number = ''2020/1234'',
      course_of_study = ''Law'', guardian_id = 1, guardian_relationship = ''Mother''\<rparr>"

definition example_reviewed :: ExeatRequest where
  "example_reviewed =
     \<lparr>er_id = 1, student_id = 5, leave_start = 110, leave_end = 150, submission_time = 100,
      reason = ''Vacation'', status_id = 2, staff_id = Some 2,
      staff_review_time = Some 200, staff_comment = Some ''ok''\<rparr>"

definition example_pending :: ExeatRequest where
  "example_pending =
     \<lparr>er_id = 2, student_id = 5, leave_start = 400, leave_end = 350, submission_time = 300,
      reason = ''Family event'', status_id = 1, staff_id = None,
      staff_review_time = None, staff_comment = None\<rparr>"

definition example_payload :: token_payload where
  "example_payload =
     \<lparr>payload_sub = Some ''ada@example.com'', payload_iat = Some 60, payload_exp = Some 1860\<rparr>"

text \<open>A decoder that accepts the one token \<open>h.p.s\<close>, with the example payload.\<close>

definition example_decode :: "string \<Rightarrow> token_payload option" where
  "example_decode token = (if token = ''h.p.s'' then Some example_payload else None)"

definition example_ledger :: "RevokedToken list" where
  "example_ledger =
     [\<lparr>revoked_sig = ''s1'', revoked_exp = 10\<rparr>,
      \<lparr>revoked_sig = ''s2'', revoked_exp = 20\<rparr>,
      \<lparr>revoked_sig = ''s3'', revoked_exp = 500\<rparr>]"

definition example_db :: database where
  "example_db =
     \<lparr>users = [example_user],
      guardians = [example_guardian],
      students = [example_student],
      staff_members = [example_staff_a, example_staff_b],
      security_operatives = [],
      exeat_requests = [example_reviewed, example_pending],
      revoked_tokens = []\<rparr>"

text \<open>
  A signup and a login on the example store. The body is the one of a student. The
  stand-ins for the libraries: an address is a string with an \<open>@\<close> and is in normal
  form; the hash of a password is the salt followed by the password; the encoder writes
  the token \<open>h.p.l\<close> for the payload of the login (subject \<open>bola@example.com\<close>, issued at
  101800) and \<open>h.p.o\<close> for every other payload, and the decoder accepts \<open>h.p.l\<close> alone.
\<close>

definition example_body :: UserCreate where
  "example_body =
     \<lparr>uc_user_type = ''student'', uc_email = ''bola@example.com'', uc_password = ''s3cret'',
      uc_first_name = ''Bola'', uc_last_name = ''Ade'', uc_phone_number = ''0801'',
      uc_is_active = True, uc_is_verified = False,
      uc_matriculation_number = Some ''2021/4321'', uc_course_of_study = Some ''Physics'',
      uc_guardian_name = Some ''Tunde Ade'', uc_guardian_phone_number = Some ''0803'',
      uc_guardian_relationship = Some ''Father'',
      uc_staff_id = None, uc_designation = None, uc_security_id = None,
      model_fields_set =
        [''user_type'', ''email'', ''password'', ''first_name'', ''last_name'', ''phone_number'',
         ''matriculation_number'', ''course_of_study'', ''guardian_name'',
         ''guardian_phone_number'', ''guardian_relationship'']\<rparr>"

definition example_EmailStr :: "string \<Rightarrow> string option" where
  "example_EmailStr s = (if CHR ''@'' \<in> set s then Some s else None)"

definition example_hashpw :: "string \<Rightarrow> string \<Rightarrow> string" where
  "example_hashpw password salt = salt @ password"

definition example_checkpw :: "string \<Rightarrow> string \<Rightarrow> bool" where
  "example_checkpw password hashed = (drop 4 hashed = password)"

definition example_login_payload :: token_payload where
  "example_login_payload =
     \<lparr>payload_sub = Some ''bola@example.com'', payload_iat = Some 101800,
      payload_exp = Some 103600\<rparr>"

definition example_encode :: "token_payload \<Rightarrow> string" where
  "example_encode p = (if p = example_login_payload then ''h.p.l'' else ''h.p.o'')"

definition example_login_decode :: "string \<Rightarrow> token_payload option" where
  "example_login_decode token = (if token = ''h.p.l'' then Some example_login_payload else None)"

definition example_new_user :: User where
  "example_new_user =
     \<lparr>user_pk = 11, first_name = ''Bola'', last_name = ''Ade'', email = ''bola@example.com'',
      phone_number = ''0801'', hashed_password = ''salts3cret'', is_active = True,
      is_verified = False, user_type_id = 2, profile_picture_id = None,
      time_joined = 100000\<rparr>"

section \<open>Review: helper lemmas\<close>

lemmas example_defs =
  example_db_def example_reviewed_def example_pending_def example_staff_a_def
  example_staff_b_def example_student_def example_user_def example_payload_def

lemma find_merge_exeat_request:
  "find (\<lambda>r. er_id r = er_id x) (exeat_requests (merge_exeat_request x db)) = Some x"
proof (cases "\<exists>r \<in> set (exeat_requests db). er_id r = er_id x")
  case True
  have "\<exists>r \<in> set rows. er_id r = er_id x \<Longrightarrow>
        find (\<lambda>r. er_id r = er_id x) (map (\<lambda>r. if er_id r = er_id x then x else r) rows) = Some x"
    for rows
    by (induction rows) auto
  with True show ?thesis by (simp add: merge_exeat_request_def)
next
  case False
  have "\<not> (\<exists>r \<in> set rows. er_id r = er_id x) \<Longrightarrow>
        find (\<lambda>r. er_id r = er_id x) (rows @ [x]) = Some x"
    for rows
    by (induction rows) auto
  with False show ?thesis by (simp add: merge_exeat_request_def)
qed

lemma get_exeat_request_merge:
  "get_exeat_request (merge_exeat_request x db) (er_id x) = Inr x"
  by (simp add: get_exeat_request_def find_merge_exeat_request)

lemma find_er_id: "find (\<lambda>r. er_id r = i) rows = Some r \<Longrightarrow> er_id r = i"
  by (induction rows) (auto split: if_splits)

lemma get_exeat_request_Inr:
  "get_exeat_request db i = Inr r \<longleftrightarrow> find (\<lambda>r. er_id r = i) (exeat_requests db) = Some r"
  by (simp add: get_exeat_request_def split: option.splits)

lemma get_exeat_request_er_id: "get_exeat_request db i = Inr r \<Longrightarrow> er_id r = i"
  unfolding get_exeat_request_Inr by (rule find_er_id)

lemma get_exeat_request_absent:
  "(\<forall>r \<in> set (exeat_requests db). er_id r \<noteq> i) \<Longrightarrow>
   get_exeat_request db i = Inl (ExeatRequestNotFound i)"
  by (simp add: get_exeat_request_def find_None_iff split: option.splits)

lemma review_unfold:
  "review d db staff i comment now =
     (case get_exeat_request db i of
        Inl e \<Rightarrow> (Inl e, db)
      | Inr r \<Rightarrow>
          if status_id r \<noteq> status_value PENDING then (Inl error_request_not_pending, db)
          else (Inr (reviewed_by d staff comment now r),
                merge_exeat_request (reviewed_by d staff comment now r) db))"
  by (cases d)
     (simp_all add: approve_exeat_request_def deny_exeat_request_def reviewed_by_def
        error_request_not_pending_def Let_def split: sum.splits)

lemma status_value_decided_not_pending: "status_value (decided_status d) \<noteq> status_value PENDING"
  by (cases d) simp_all

lemma review_absent:
  assumes "\<forall>r \<in> set (exeat_requests db). er_id r \<noteq> i"
  shows "review d db staff i comment now = (Inl (ExeatRequestNotFound i), db)"
  using get_exeat_request_absent [OF assms] by (simp add: review_unfold)

lemma review_not_pending:
  assumes "get_exeat_request db i = Inr r" and "status_id r \<noteq> status_value PENDING"
  shows "review d db staff i comment now = (Inl error_request_not_pending, db)"
  using assms by (simp add: review_unfold)

lemma review_pending:
  assumes "get_exeat_request db i = Inr r" and "status_id r = status_value PENDING"
  shows "review d db staff i comment now =
           (Inr (reviewed_by d staff comment now r),
            merge_exeat_request (reviewed_by d staff comment now r) db)"
  using assms by (simp add: review_unfold)

lemma get_after_review:
  assumes "get_exeat_request db i = Inr r"
  shows "get_exeat_request (merge_exeat_request (reviewed_by d staff comment now r) db) i =
           Inr (reviewed_by d staff comment now r)"
proof -
  have "er_id (reviewed_by d staff comment now r) = i"
    using get_exeat_request_er_id [OF assms] by (simp add: reviewed_by_def)
  then show ?thesis
    using get_exeat_request_merge [of "reviewed_by d staff comment now r" db] by simp
qed

lemma status_after_review:
  "status_id (reviewed_by d staff comment now r) \<noteq> status_value PENDING"
  using status_value_decided_not_pending [of d] by (simp add: reviewed_by_def)

section \<open>The review state machine\<close>

text \<open>
  What a review call (approve or deny) by a staff member on an exeat id does, case by
  case. It fails with the not-found exception of the record store when no request has
  that id; it fails with the HTTP 400 error "Request is not pending" and leaves the store
  unchanged when the request is not pending; otherwise the stored request gets the
  decided status, the id of the reviewer, the time of the call and the supplied comment,
  and every later review of the same id fails with "Request is not pending".
\<close>

theorem review_state_machine:
  "((\<forall>r \<in> set (exeat_requests db). er_id r \<noteq> i) \<longrightarrow>
      review d db staff i comment now = (Inl (ExeatRequestNotFound i), db)) \<and>
   (\<forall>r. get_exeat_request db i = Inr r \<and> status_id r \<noteq> status_value PENDING \<longrightarrow>
      review d db staff i comment now = (Inl (HTTPException 400 ''Request is not pending''), db)) \<and>
   (\<forall>r. get_exeat_request db i = Inr r \<and> status_id r = status_value PENDING \<longrightarrow>
      (\<exists>r' db'.
         review d db staff i comment now = (Inr r', db') \<and>
         r' = r\<lparr>status_id := status_value (decided_status d),
                 staff_id := Some (staff_pk staff),
                 staff_review_time := Some now,
                 staff_comment := comment\<rparr> \<and>
         get_exeat_request db' i = Inr r' \<and>
         (\<forall>d2 staff2 comment2 now2.
            review d2 db' staff2 i comment2 now2 =
              (Inl (HTTPException 400 ''Request is not pending''), db'))))"
proof (intro conjI allI impI)
  assume "\<forall>r \<in> set (exeat_requests db). er_id r \<noteq> i"
  then show "review d db staff i comment now = (Inl (ExeatRequestNotFound i), db)"
    by (rule review_absent)
next
  fix r
  assume "get_exeat_request db i = Inr r \<and> status_id r \<noteq> status_value PENDING"
  then show "review d db staff i comment now =
               (Inl (HTTPException 400 ''Request is not pending''), db)"
    using review_not_pending [of db i r d staff comment now]
    by (simp add: error_request_not_pending_def)
next
  fix r
  assume a: "get_exeat_request db i = Inr r \<and> status_id r = status_value PENDING"
  let ?r' = "reviewed_by d staff comment now r"
  let ?db' = "merge_exeat_request ?r' db"
  have 1: "review d db staff i comment now = (Inr ?r', ?db')"
    using a by (simp add: review_pending)
  have 2: "get_exeat_request ?db' i = Inr ?r'"
    using a by (simp add: get_after_review)
  have 3: "review d2 ?db' staff2 i comment2 now2 =
             (Inl (HTTPException 400 ''Request is not pending''), ?db')"
    for d2 staff2 comment2 now2
    using review_not_pending [OF 2 status_after_review, of d2 staff2 comment2 now2]
    by (simp add: error_request_not_pending_def)
  have 4: "?r' = r\<lparr>status_id := status_value (decided_status d),
                     staff_id := Some (staff_pk staff),
                     staff_review_time := Some now,
                     staff_comment := comment\<rparr>"
    by (simp add: reviewed_by_def)
  show "\<exists>r' db'.
         review d db staff i comment now = (Inr r', db') \<and>
         r' = r\<lparr>status_id := status_value (decided_status d),
                 staff_id := Some (staff_pk staff),
                 staff_review_time := Some now,
                 staff_comment := comment\<rparr> \<and>
         get_exeat_request db' i = Inr r' \<and>
         (\<forall>d2 staff2 comment2 now2.
            review d2 db' staff2 i comment2 now2 =
              (Inl (HTTPException 400 ''Request is not pending''), db'))"
  proof (intro exI conjI allI)
    show "review d db staff i comment now = (Inr ?r', ?db')" by (rule 1)
    show "?r' = r\<lparr>status_id := status_value (decided_status d),
                       staff_id := Some (staff_pk staff),
                       staff_review_time := Some now,
                       staff_comment := comment\<rparr>" by (rule 4)
    show "get_exeat_request ?db' i = Inr ?r'" by (rule 2)
    show "review d2 ?db' staff2 i comment2 now2 =
            (Inl (HTTPException 400 ''Request is not pending''), ?db')"
      for d2 staff2 comment2 now2 by (rule 3)
  qed
qed

theorem review_state_machine_witness:
  "review Approve example_db example_staff_a 7 None 400 =
     (Inl (ExeatRequestNotFound 7), example_db) \<and>
   review Deny example_db example_staff_a 1 None 400 =
     (Inl (HTTPException 400 ''Request is not pending''), example_db) \<and>
   (\<exists>r' db'.
      review Approve example_db example_staff_a 2 (Some ''Approved, safe travels'') 400 = (Inr r', db') \<and>
      r' = example_pending\<lparr>status_id := status_value (decided_status Approve),
                             staff_id := Some (staff_pk example_staff_a),
                             staff_review_time := Some 400,
                             staff_comment := Some ''Approved, safe travels''\<rparr> \<and>
      get_exeat_request db' 2 = Inr r' \<and>
      (\<forall>d2 staff2 comment2 now2.
         review d2 db' staff2 2 comment2 now2 =
           (Inl (HTTPException 400 ''Request is not pending''), db')))"
proof -
  have a: "\<forall>r \<in> set (exeat_requests example_db). er_id r \<noteq> 7"
    by (simp add: example_defs)
  have b: "get_exeat_request example_db 1 = Inr example_reviewed \<and>
           status_id example_reviewed \<noteq> status_value PENDING"
    by (simp add: get_exeat_request_def example_defs)
  have c: "get_exeat_request example_db 2 = Inr example_pending \<and>
           status_id example_pending = status_value PENDING"
    by (simp add: get_exeat_request_def example_defs)
  show ?thesis
    using a b c
      review_state_machine [of example_db 7 Approve example_staff_a None 400]
      review_state_machine [of example_db 1 Deny example_staff_a None 400]
      review_state_machine [of example_db 2 Approve example_staff_a "Some ''Approved, safe travels''" 400]
    by blast
qed

text \<open>
  C1 says that a review of an id that no request has fails NotFound, as a review of a
  request that is not pending fails with the HTTP error "Request is not pending". The
  example store has no request 7: approve and deny of 7 fail with the
  \<^verbatim>\<open>ExeatRequestNotFound\<close> exception of db/crud.py, which no handler turns into a
  response, and not with the 404 error "Exeat request not found" that both handlers
  raise in their branch \<^verbatim>\<open>if not exeat_request\<close>; the single-item fetch of the same
  router answers the same id with that 404 error.
\<close>

theorem review_absent_id_evaluated:
  "approve_exeat_request example_db example_staff_a 7 None 400 =
     (Inl (ExeatRequestNotFound 7), example_db) \<and>
   deny_exeat_request example_db example_staff_a 7 None 400 =
     (Inl (ExeatRequestNotFound 7), example_db) \<and>
   ExeatRequestNotFound 7 \<noteq> HTTPException 404 ''Exeat request not found'' \<and>
   staff_get_exeat example_db example_staff_a 7 =
     Inl (HTTPException 404 ''Exeat request not found'')"
  by (simp add: approve_exeat_request_def deny_exeat_request_def get_exeat_request_def
        staff_get_exeat_def error_exeat_request_not_found_def example_defs)

section \<open>Approve and deny side by side\<close>

text \<open>
  C10. On the same store, reviewer, id, comment and time, deny and approve fail in the
  same cases with the same error, and on a pending request the record that deny
  produces is the record that approve produces with the status denied in place of
  approved: reviewer id, review time and comment are set alike.
\<close>

theorem deny_mirrors_approve:
  "(\<forall>e. approve_exeat_request db staff i comment now = (Inl e, db) \<longleftrightarrow>
        deny_exeat_request db staff i comment now = (Inl e, db)) \<and>
   isl (fst (approve_exeat_request db staff i comment now)) =
     isl (fst (deny_exeat_request db staff i comment now)) \<and>
   (\<forall>r. get_exeat_request db i = Inr r \<and> status_id r = status_value PENDING \<longrightarrow>
      (\<exists>ra rd.
         approve_exeat_request db staff i comment now = (Inr ra, merge_exeat_request ra db) \<and>
         deny_exeat_request db staff i comment now = (Inr rd, merge_exeat_request rd db) \<and>
         status_id ra = status_value APPROVED \<and>
         rd = ra\<lparr>status_id := status_value DENIED\<rparr> \<and>
         staff_id rd = Some (staff_pk staff) \<and> staff_id ra = Some (staff_pk staff) \<and>
         staff_review_time rd = Some now \<and> staff_review_time ra = Some now \<and>
         staff_comment rd = comment \<and> staff_comment ra = comment))"
proof -
  have ap: "approve_exeat_request db staff i comment now = review Approve db staff i comment now"
    and dn: "deny_exeat_request db staff i comment now = review Deny db staff i comment now"
    by simp_all
  show ?thesis
    unfolding ap dn review_unfold
    by (cases "get_exeat_request db i")
       (auto simp: reviewed_by_def error_request_not_pending_def)
qed


theorem deny_mirrors_approve_witness:
  "\<exists>ra rd.
      approve_exeat_request example_db example_staff_a 2 None 400 =
        (Inr ra, merge_exeat_request ra example_db) \<and>
      deny_exeat_request example_db example_staff_a 2 None 400 =
        (Inr rd, merge_exeat_request rd example_db) \<and>
      status_id ra = status_value APPROVED \<and>
      rd = ra\<lparr>status_id := status_value DENIED\<rparr> \<and>
      staff_id rd = Some (staff_pk example_staff_a) \<and>
      staff_id ra = Some (staff_pk example_staff_a) \<and>
      staff_review_time rd = Some 400 \<and> staff_review_time ra = Some 400 \<and>
      staff_comment rd = None \<and> staff_comment ra = None"
proof -
  have c: "get_exeat_request example_db 2 = Inr example_pending \<and>
           status_id example_pending = status_value PENDING"
    by (simp add: get_exeat_request_def example_defs)
  show ?thesis
    using c deny_mirrors_approve [of example_db example_staff_a 2 None 400]
    by blast
qed

section \<open>Pagination\<close>

lemma neg_div_ceiling: "- (- a div b) = (a + b - 1) div b" if "0 < b" for a b :: int
proof -
  define q where "q = (a + b - 1) div b"
  define r where "r = (a + b - 1) mod b"
  have eq: "a + b - 1 = b * q + r" and r: "0 \<le> r" "r < b"
    using that by (simp_all add: q_def r_def)
  have "- a = b * (- q) + (b - 1 - r)"
    using eq by (simp add: algebra_simps)
  moreover have "0 \<le> b - 1 - r" "b - 1 - r < b"
    using r by simp_all
  ultimately have "- a div b = - q"
    by (rule int_div_pos_eq)
  then show ?thesis by (simp add: q_def)
qed

lemma ceiling_div:
  "(a + b - 1) div b = \<lceil>real_of_int a / real_of_int b\<rceil>" if "0 < b" for a b :: int
  using neg_div_ceiling [OF that, of a] by (simp add: ceiling_divide_eq_div)

lemma set_order_by: "set (order_by key ascending rows) = set rows"
  by (simp add: order_by_def)

lemma length_order_by: "length (order_by key ascending rows) = length rows"
  by (simp add: order_by_def)

lemma set_order_exeats: "set (order_exeats sort_by ascending rows) = set rows"
  by (cases sort_by) (simp_all add: set_order_by)

lemma length_order_exeats: "length (order_exeats sort_by ascending rows) = length rows"
  by (cases sort_by) (simp_all add: length_order_by)

lemma set_filtered_exeats:
  "set (filtered_exeats db query status sort_by ascending) =
     {r \<in> set (exeat_requests db). query r \<and> status_matches status r}"
  by (simp add: filtered_exeats_def set_order_exeats)

lemma length_filtered_exeats:
  "length (filtered_exeats db query status sort_by ascending) =
     length (filter (\<lambda>r. query r \<and> status_matches status r) (exeat_requests db))"
  by (simp add: filtered_exeats_def length_order_exeats)

lemma paginated_exeats_query_Inr:
  assumes "per_page \<noteq> 0"
  shows "paginated_exeats_query db query page per_page status sort_by ascending =
     Inr \<lparr>total_items = int (length (filtered_exeats db query status sort_by ascending)),
          total_pages = (int (length (filtered_exeats db query status sort_by ascending)) + per_page - 1) div per_page,
          page_size = per_page,
          current_page = min page ((int (length (filtered_exeats db query status sort_by ascending)) + per_page - 1) div per_page),
          items = sql_limit per_page
                    (sql_offset ((min page ((int (length (filtered_exeats db query status sort_by ascending)) + per_page - 1) div per_page) - 1) * per_page)
                       (filtered_exeats db query status sort_by ascending))\<rparr>"
  using assms by (simp add: paginated_exeats_query_def Let_def)

lemma pages_of_none: "(0 + b - 1) div b = 0" if "1 \<le> b" for b :: int
  using that by (simp add: div_pos_pos_trivial)

lemma paginated_clamp:
  assumes "(int (length (filtered_exeats db query status sort_by ascending)) + per_page - 1) div per_page \<le> page"
  shows "paginated_exeats_query db query page per_page status sort_by ascending =
         paginated_exeats_query db query
           ((int (length (filtered_exeats db query status sort_by ascending)) + per_page - 1) div per_page)
           per_page status sort_by ascending"
  using assms by (simp add: paginated_exeats_query_def Let_def min_def)

text \<open>
  C3. For a page number of at least 1 and a page size from 1 to 100 the query never
  fails. It reports the number of matching rows, the ceiling of that number over the page
  size as the number of pages, and the requested page clamped to the number of pages; the
  items are at most a page of rows taken from the offset (page - 1) * page size of the
  ordered matching rows. With no matching row it reports 0 pages, page 0 and no item;
  45 rows in pages of 20 make 3 pages; any page from the last page on (99 for 3) gives
  the response of the last page.
\<close>

theorem paginated_exeats_query_pagination:
  assumes "1 \<le> page" and "1 \<le> per_page" and "per_page \<le> 100"
  shows "\<exists>resp.
     paginated_exeats_query db query page per_page status sort_by ascending = Inr resp \<and>
     total_items resp =
       int (length (filter (\<lambda>r. query r \<and> status_matches status r) (exeat_requests db))) \<and>
     total_pages resp = \<lceil>real_of_int (total_items resp) / real_of_int per_page\<rceil> \<and>
     current_page resp = (if total_pages resp < page then total_pages resp else page) \<and>
     page_size resp = per_page \<and>
     items resp =
       sql_limit per_page
         (sql_offset ((current_page resp - 1) * per_page)
            (filtered_exeats db query status sort_by ascending)) \<and>
     int (length (items resp)) \<le> per_page \<and>
     (total_items resp = 0 \<longrightarrow>
        total_pages resp = 0 \<and> current_page resp = 0 \<and> items resp = []) \<and>
     (total_items resp = 45 \<and> per_page = 20 \<longrightarrow> total_pages resp = 3) \<and>
     (total_pages resp \<le> page \<longrightarrow>
        paginated_exeats_query db query page per_page status sort_by ascending =
        paginated_exeats_query db query (total_pages resp) per_page status sort_by ascending)"
proof -
  define rows where "rows = filtered_exeats db query status sort_by ascending"
  define n where "n = int (length rows)"
  define pages where "pages = (n + per_page - 1) div per_page"
  define cur where "cur = min page pages"
  define resp where
    "resp = \<lparr>total_items = n, total_pages = pages, page_size = per_page, current_page = cur,
              items = sql_limit per_page (sql_offset ((cur - 1) * per_page) rows)\<rparr>"
  have sel:
    "total_items resp = n" "total_pages resp = pages" "page_size resp = per_page"
    "current_page resp = cur"
    "items resp = sql_limit per_page (sql_offset ((cur - 1) * per_page) rows)"
    by (simp_all add: resp_def)
  have pos: "0 < per_page" and nz: "per_page \<noteq> 0"
    using assms(2) by simp_all
  have r: "paginated_exeats_query db query page per_page status sort_by ascending = Inr resp"
    unfolding resp_def cur_def pages_def n_def rows_def
    using nz by (rule paginated_exeats_query_Inr)
  have count: "n = int (length (filter (\<lambda>r. query r \<and> status_matches status r) (exeat_requests db)))"
    by (simp add: n_def rows_def length_filtered_exeats)
  have ceil: "pages = \<lceil>real_of_int n / real_of_int per_page\<rceil>"
    unfolding pages_def using pos by (rule ceiling_div)
  have clamp_page: "cur = (if pages < page then pages else page)"
    by (simp add: cur_def min_def)
  have len: "int (length (sql_limit per_page (sql_offset ((cur - 1) * per_page) rows))) \<le> per_page"
    using pos by (simp add: sql_limit_def)
  have zero: "pages = 0 \<and> cur = 0 \<and>
              sql_limit per_page (sql_offset ((cur - 1) * per_page) rows) = []" if "n = 0"
  proof -
    have p0: "pages = 0"
      using that pages_of_none [OF assms(2)] by (simp add: pages_def)
    have c0: "cur = 0"
      using p0 assms(1) by (simp add: cur_def)
    have "rows = []"
      using that by (simp add: n_def)
    then have "sql_limit per_page (sql_offset ((cur - 1) * per_page) rows) = []"
      by (simp add: sql_limit_def sql_offset_def)
    with p0 c0 show ?thesis by simp
  qed
  have ex: "pages = 3" if "n = 45 \<and> per_page = 20"
    using that by (simp add: pages_def)
  have same: "paginated_exeats_query db query page per_page status sort_by ascending =
              paginated_exeats_query db query pages per_page status sort_by ascending"
    if "pages \<le> page"
    using that unfolding pages_def n_def rows_def by (rule paginated_clamp)
  show ?thesis
    unfolding rows_def [symmetric]
  proof (rule exI [of _ resp], unfold sel, intro conjI impI)
    show "paginated_exeats_query db query page per_page status sort_by ascending = Inr resp"
      by (rule r)
    show "n = int (length (filter (\<lambda>r. query r \<and> status_matches status r) (exeat_requests db)))"
      by (rule count)
    show "pages = \<lceil>real_of_int n / real_of_int per_page\<rceil>"
      by (rule ceil)
    show "cur = (if pages < page then pages else page)"
      by (rule clamp_page)
    show "per_page = per_page" ..
    show "sql_limit per_page (sql_offset ((cur - 1) * per_page) rows) =
          sql_limit per_page (sql_offset ((cur - 1) * per_page) rows)" ..
    show "int (length (sql_limit per_page (sql_offset ((cur - 1) * per_page) rows))) \<le> per_page"
      by (rule len)
    show "pages = 0" if "n = 0" using zero [OF that] by (elim conjE)
    show "cur = 0" if "n = 0" using zero [OF that] by (elim conjE)
    show "sql_limit per_page (sql_offset ((cur - 1) * per_page) rows) = []" if "n = 0"
      using zero [OF that] by (elim conjE)
    show "pages = 3" if "n = 45 \<and> per_page = 20" using that by (rule ex)
    show "paginated_exeats_query db query page per_page status sort_by ascending =
          paginated_exeats_query db query pages per_page status sort_by ascending"
      if "pages \<le> page"
      using that by (rule same)
  qed
qed


theorem paginated_exeats_query_pagination_witness:
  "\<exists>resp.
     paginated_exeats_query example_db (\<lambda>r. True) 99 1 None Sort_leave_start True = Inr resp \<and>
     total_items resp = 2 \<and> total_pages resp = 2 \<and> current_page resp = 2 \<and>
     page_size resp = 1 \<and> items resp = [example_pending] \<and>
     paginated_exeats_query example_db (\<lambda>r. True) 99 1 None Sort_leave_start True =
     paginated_exeats_query example_db (\<lambda>r. True) 2 1 None Sort_leave_start True"
proof -
  have rows: "filtered_exeats example_db (\<lambda>r. True) None Sort_leave_start True =
                [example_reviewed, example_pending]"
    by (simp add: filtered_exeats_def order_by_def status_matches_def example_defs)
  have count: "int (length (filter (\<lambda>r. True \<and> status_matches None r) (exeat_requests example_db))) = 2"
    by (simp add: status_matches_def example_defs)
  from paginated_exeats_query_pagination
         [of 99 1 example_db "\<lambda>r. True" None Sort_leave_start True]
  obtain resp where
    r: "paginated_exeats_query example_db (\<lambda>r. True) 99 1 None Sort_leave_start True = Inr resp"
    and n: "total_items resp =
              int (length (filter (\<lambda>r. True \<and> status_matches None r) (exeat_requests example_db)))"
    and p: "total_pages resp = \<lceil>real_of_int (total_items resp) / real_of_int 1\<rceil>"
    and c: "current_page resp = (if total_pages resp < 99 then total_pages resp else 99)"
    and s: "page_size resp = 1"
    and i: "items resp =
              sql_limit 1 (sql_offset ((current_page resp - 1) * 1)
                (filtered_exeats example_db (\<lambda>r. True) None Sort_leave_start True))"
    and same: "total_pages resp \<le> 99 \<longrightarrow>
        paginated_exeats_query example_db (\<lambda>r. True) 99 1 None Sort_leave_start True =
        paginated_exeats_query example_db (\<lambda>r. True) (total_pages resp) 1 None Sort_leave_start True"
    by auto
  have n2: "total_items resp = 2" using n count by simp
  have p2: "total_pages resp = 2" using p n2 by simp
  have c2: "current_page resp = 2" using c p2 by simp
  have i2: "items resp = [example_pending]"
    using i c2 rows by (simp add: sql_limit_def sql_offset_def)
  have same2:
    "paginated_exeats_query example_db (\<lambda>r. True) 99 1 None Sort_leave_start True =
     paginated_exeats_query example_db (\<lambda>r. True) 2 1 None Sort_leave_start True"
    using same p2 by simp
  show ?thesis
    using r n2 p2 c2 s i2 same2 by (intro exI [of _ resp] conjI)
qed

section \<open>Security endpoints\<close>

lemma set_window_subset: "set (sql_limit n (sql_offset k rows)) \<subseteq> set rows"
proof -
  have "set (take m (drop j rows)) \<subseteq> set rows" for m j
    using set_take_subset [of m "drop j rows"] set_drop_subset [of j rows] by blast
  then show ?thesis
    by (simp add: sql_limit_def sql_offset_def set_drop_subset)
qed

lemma paginated_items_subset:
  assumes "paginated_exeats_query db query page per_page status sort_by ascending = Inr resp"
  shows "set (items resp) \<subseteq>
           {r \<in> set (exeat_requests db). query r \<and> status_matches status r}"
proof -
  have nz: "per_page \<noteq> 0"
    using assms by (auto simp: paginated_exeats_query_def Let_def split: if_splits)
  have "\<exists>k. items resp =
          sql_limit per_page (sql_offset k (filtered_exeats db query status sort_by ascending))"
    using assms unfolding paginated_exeats_query_Inr [OF nz] by auto
  then show ?thesis
    using set_window_subset set_filtered_exeats by metis
qed

lemma filter_distinct_key:
  assumes "distinct (map er_id rows)" and "r \<in> set rows"
  shows "filter (\<lambda>x. er_id x = er_id r) rows = [r]"
  using assms
proof (induction rows)
  case Nil
  then show ?case by simp
next
  case (Cons x rows)
  show ?case
  proof (cases "x = r")
    case True
    have "er_id r \<notin> er_id ` set rows"
      using Cons.prems(1) True by simp
    then have "\<forall>y \<in> set rows. er_id y \<noteq> er_id r"
      by (metis imageI)
    then have "filter (\<lambda>y. er_id y = er_id r) rows = []"
      by (simp add: filter_empty_conv)
    with True show ?thesis by simp
  next
    case False
    then have in_rest: "r \<in> set rows" using Cons.prems(2) by simp
    then have "er_id x \<noteq> er_id r" using Cons.prems(1) by force
    moreover have "filter (\<lambda>y. er_id y = er_id r) rows = [r]"
      using Cons.IH Cons.prems(1) in_rest by simp
    ultimately show ?thesis by simp
  qed
qed

text \<open>
  The single-item fetch of the security router selects on the id alone: on the example
  store it returns request 2, which is pending.
\<close>

theorem security_get_exeat_counterexample:
  "security_get_exeat example_db 2 = Inr example_pending \<and>
   status_id example_pending = status_value PENDING \<and>
   status_id example_pending \<noteq> status_value APPROVED"
  by (simp add: security_get_exeat_def example_defs)

text \<open>
  C2, as the code has it. Every request in a security listing is a stored request whose
  status is approved. The single-item fetch of the security router returns the stored
  request with the given id whatever its status, and fails with the 404 error exactly
  when no request has that id.
\<close>

theorem security_endpoints:
  "(\<forall>resp. security_get_exeats db page per_page sort_by ascending = Inr resp \<longrightarrow>
      (\<forall>r \<in> set (items resp). r \<in> set (exeat_requests db) \<and> status_id r = status_value APPROVED)) \<and>
   ((\<forall>r \<in> set (exeat_requests db). er_id r \<noteq> i) \<longrightarrow>
      security_get_exeat db i = Inl error_exeat_request_not_found) \<and>
   (\<forall>r. distinct (map er_id (exeat_requests db)) \<and> r \<in> set (exeat_requests db) \<and> er_id r = i \<longrightarrow>
      security_get_exeat db i = Inr r)"
proof (intro conjI allI impI ballI)
  fix resp r
  assume "security_get_exeats db page per_page sort_by ascending = Inr resp"
    and "r \<in> set (items resp)"
  then have "r \<in> {r \<in> set (exeat_requests db). True \<and> status_matches (Some APPROVED) r}"
    using paginated_items_subset [of db "\<lambda>r. True" page per_page "Some APPROVED" sort_by ascending resp]
    unfolding security_get_exeats_def by blast
  then show "r \<in> set (exeat_requests db)" and "status_id r = status_value APPROVED"
    by (simp_all add: status_matches_def)
next
  assume "\<forall>r \<in> set (exeat_requests db). er_id r \<noteq> i"
  then have "filter (\<lambda>r. er_id r = i) (exeat_requests db) = []"
    by (simp add: filter_empty_conv)
  then show "security_get_exeat db i = Inl error_exeat_request_not_found"
    by (simp add: security_get_exeat_def)
next
  fix r
  assume a: "distinct (map er_id (exeat_requests db)) \<and> r \<in> set (exeat_requests db) \<and> er_id r = i"
  then have "filter (\<lambda>x. er_id x = er_id r) (exeat_requests db) = [r]"
    using filter_distinct_key by blast
  with a show "security_get_exeat db i = Inr r"
    by (auto simp: security_get_exeat_def)
qed

theorem security_endpoints_witness:
  "(\<exists>resp. security_get_exeats example_db 1 20 Sort_leave_start True = Inr resp \<and>
      items resp = [example_reviewed] \<and> status_id example_reviewed = status_value APPROVED) \<and>
   security_get_exeat example_db 7 = Inl error_exeat_request_not_found \<and>
   security_get_exeat example_db 2 = Inr example_pending"
proof -
  have l: "security_get_exeats example_db 1 20 Sort_leave_start True =
             Inr \<lparr>total_items = 1, total_pages = 1, page_size = 20, current_page = 1,
                  items = [example_reviewed]\<rparr>"
    by (simp add: security_get_exeats_def paginated_exeats_query_def filtered_exeats_def
          order_by_def status_matches_def sql_limit_def sql_offset_def example_defs)
  have a: "\<forall>r \<in> set (exeat_requests example_db). er_id r \<noteq> 7"
    by (simp add: example_defs)
  have b: "distinct (map er_id (exeat_requests example_db)) \<and>
           example_pending \<in> set (exeat_requests example_db) \<and> er_id example_pending = 2"
    by (simp add: example_defs)
  note t = security_endpoints [of example_db 1 20 Sort_leave_start True]
  have 1: "status_id example_reviewed = status_value APPROVED"
    using t [of 7] l by simp
  have 2: "security_get_exeat example_db 7 = Inl error_exeat_request_not_found"
    using t [of 7] a by blast
  have 3: "security_get_exeat example_db 2 = Inr example_pending"
    using t [of 2] b by blast
  show ?thesis using l 1 2 3 by simp
qed

section \<open>Staff listing\<close>

lemma nth_in_window:
  fixes rows :: "'a list"
  assumes "0 < p" and "i < length rows"
  shows "rows ! i \<in> set (take p (drop (i div p * p) rows))"
proof -
  define k where "k = i div p * p"
  have le: "k \<le> i" by (simp add: k_def)
  have idx: "i - k < p"
    using assms(1) by (simp add: k_def minus_div_mult_eq_mod)
  have "i - k < length (drop k rows)"
    using assms(2) le by simp
  then have "i - k < length (take p (drop k rows))"
    using idx by simp
  moreover have "take p (drop k rows) ! (i - k) = rows ! i"
    using idx le assms(2) by simp
  ultimately have "rows ! i \<in> set (take p (drop k rows))"
    by (metis nth_mem)
  then show ?thesis by (simp add: k_def)
qed

lemma page_of_index_le_pages:
  fixes per_page :: int
  assumes "1 \<le> per_page" and "i < n"
  shows "int (i div nat per_page) + 1 \<le> (int n + per_page - 1) div per_page"
proof -
  have pp: "int (nat per_page) = per_page" using assms(1) by simp
  have "int (i div nat per_page) + 1 = (int i + per_page) div per_page"
    using assms(1) by (simp add: zdiv_int pp)
  also have "\<dots> \<le> (int n + per_page - 1) div per_page"
    using assms by (intro zdiv_mono1) simp_all
  finally show ?thesis .
qed

lemma paginated_item_on_some_page:
  assumes "1 \<le> per_page"
    and "r \<in> set (filtered_exeats db query status sort_by ascending)"
  shows "\<exists>page resp. 1 \<le> page \<and>
           paginated_exeats_query db query page per_page status sort_by ascending = Inr resp \<and>
           r \<in> set (items resp)"
proof -
  let ?rows = "filtered_exeats db query status sort_by ascending"
  let ?p = "nat per_page"
  from assms(2) obtain i where i: "i < length ?rows" and r: "?rows ! i = r"
    by (auto simp: in_set_conv_nth)
  let ?page = "int (i div ?p) + 1"
  have pos: "0 < ?p" and nz: "per_page \<noteq> 0" using assms(1) by simp_all
  have le: "?page \<le> (int (length ?rows) + per_page - 1) div per_page"
    using assms(1) i by (rule page_of_index_le_pages)
  then have m: "min ?page ((int (length ?rows) + per_page - 1) div per_page) = ?page"
    by simp
  have off: "nat ((?page - 1) * per_page) = i div ?p * ?p"
    using assms(1) by (simp add: nat_mult_distrib)
  have "r \<in> set (take ?p (drop (i div ?p * ?p) ?rows))"
    using nth_in_window [OF pos i] r by simp
  then have "r \<in> set (sql_limit per_page (sql_offset ((?page - 1) * per_page) ?rows))"
    using assms(1) unfolding sql_limit_def sql_offset_def off by simp
  then have "r \<in> set (items
      \<lparr>total_items = int (length ?rows),
       total_pages = (int (length ?rows) + per_page - 1) div per_page,
       page_size = per_page,
       current_page = min ?page ((int (length ?rows) + per_page - 1) div per_page),
       items = sql_limit per_page
                 (sql_offset ((min ?page ((int (length ?rows) + per_page - 1) div per_page) - 1) * per_page)
                    ?rows)\<rparr>)"
    unfolding m by simp
  moreover have "1 \<le> ?page" by simp
  ultimately show ?thesis
    using paginated_exeats_query_Inr [OF nz, of db query ?page status sort_by ascending]
    by blast
qed


text \<open>
  Upper-casing, on names in lower and mixed case and on names with the dotless i, the
  long s, a ligature and the sharp s.
\<close>

lemma str_upper_examples:
  "str_upper ''pending'' = ''PENDING''"
  "str_upper ''Security_Operative'' = ''SECURITY_OPERATIVE''"
  "str_upper (''pend'' @ [char_of (196 :: nat), char_of (177 :: nat)] @ ''ng'') = ''PENDING''"
  "str_upper (''den'' @ [char_of (196 :: nat), char_of (177 :: nat)] @ ''ed'') = ''DENIED''"
  "str_upper ([char_of (197 :: nat), char_of (191 :: nat)] @ ''tudent'') = ''STUDENT''"
  "str_upper ([char_of (239 :: nat), char_of (172 :: nat), char_of (134 :: nat)] @ ''aff'') =
     ''STAFF''"
  "str_upper (''stra'' @ [char_of (195 :: nat), char_of (159 :: nat)] @ ''e'') = ''STRASSE''"
  by code_simp+

text \<open>The status parameter as the staff listing reads it.\<close>

lemma status_parameter_examples:
  "status_parameter None = Inr None"
  "status_parameter (Some '''') = Inr None"
  "status_parameter (Some ''pending'') = Inr (Some PENDING)"
  "status_parameter (Some ''Approved'') = Inr (Some APPROVED)"
  "status_parameter (Some ''DENIED'') = Inr (Some DENIED)"
  "status_parameter (Some (''pend'' @ [char_of (196 :: nat), char_of (177 :: nat)] @ ''ng'')) =
     Inr (Some PENDING)"
  "status_parameter (Some ''bogus'') = Inl (KeyError ''BOGUS'')"
  by code_simp+

lemma from_safe_name_inverse: "from_safe_name (safe_name st) = Inr st"
  by (cases st; simp only: safe_name.simps; code_simp)

lemma status_parameter_safe_name: "status_parameter (map_option safe_name st) = Inr st"
proof (cases st)
  case None
  then show ?thesis by (simp add: status_parameter_def)
next
  case (Some x)
  have "safe_name x \<noteq> []" by (cases x) simp_all
  with Some show ?thesis by (simp add: status_parameter_def from_safe_name_inverse)
qed

lemma paginated_total_items:
  assumes "per_page \<noteq> 0"
  shows "\<exists>resp.
     paginated_exeats_query db query page per_page status sort_by ascending = Inr resp \<and>
     total_items resp =
       int (length (filter (\<lambda>r. query r \<and> status_matches status r) (exeat_requests db)))"
  unfolding paginated_exeats_query_Inr [OF assms]
  by (simp add: length_filtered_exeats)

lemma staff_get_exeats_parsed:
  assumes "status_parameter status = Inr st"
  shows "staff_get_exeats db a page per_page status sort_by ascending =
           paginated_exeats_query db (\<lambda>r. staff_id r = Some (staff_pk a) \<or> staff_id r = None)
             page per_page st sort_by ascending"
  using assms by (simp add: staff_get_exeats_def)

lemma staff_get_exeats_items:
  assumes "staff_get_exeats db a page per_page status sort_by ascending = Inr resp"
  shows "set (items resp) \<subseteq>
           {r \<in> set (exeat_requests db). staff_id r = Some (staff_pk a) \<or> staff_id r = None}"
proof (cases "status_parameter status")
  case (Inl e)
  with assms show ?thesis by (simp add: staff_get_exeats_def)
next
  case (Inr st)
  from assms have "paginated_exeats_query db
      (\<lambda>r. staff_id r = Some (staff_pk a) \<or> staff_id r = None)
      page per_page st sort_by ascending = Inr resp"
    unfolding staff_get_exeats_parsed [OF Inr] .
  from paginated_items_subset [OF this] show ?thesis by auto
qed

lemma merged_rows_with_key:
  assumes "x \<in> set (exeat_requests (merge_exeat_request y db))" and "er_id x = er_id y"
  shows "x = y"
  using assms by (auto simp: merge_exeat_request_def split: if_splits)

lemma rows_after_review:
  assumes "review d db b i comment now = (Inr r', db')"
    and "x \<in> set (exeat_requests db')" and "er_id x = i"
  shows "staff_id x = Some (staff_pk b)"
proof (cases "get_exeat_request db i")
  case (Inl e)
  with assms(1) show ?thesis by (simp add: review_unfold)
next
  case (Inr r)
  have key: "er_id (reviewed_by d b comment now r) = i"
    using get_exeat_request_er_id [OF Inr] by (simp add: reviewed_by_def)
  from assms(1) Inr have db': "db' = merge_exeat_request (reviewed_by d b comment now r) db"
    by (auto simp: review_unfold split: if_splits)
  have "x = reviewed_by d b comment now r"
    using assms(2,3) key unfolding db' by (intro merged_rows_with_key [of x _ db]) simp_all
  then show ?thesis by (simp add: reviewed_by_def)
qed

text \<open>
  C8. For a staff caller A, a page number of at least 1, a page size from 1 to 100 and a
  status parameter that is absent or is the safe name of a status, the staff listing
  succeeds; it counts, and its pages hold between them, exactly the stored requests whose
  staff id is A's or null and which have the status named, if one was. A status
  parameter that the endpoint reads as the same status gives the same listing. So every
  pending, unassigned request is on some page of every staff member's listing, unless
  the listing is for another status, and after a review by a staff member B other than A
  no page of A's listing holds a request with the reviewed id.
\<close>

theorem staff_listing:
  assumes "1 \<le> page" and "1 \<le> per_page" and "per_page \<le> 100"
  shows "\<exists>resp.
     staff_get_exeats db a page per_page (map_option safe_name st) sort_by ascending = Inr resp \<and>
     total_items resp =
       int (length (filter (\<lambda>r. (staff_id r = Some (staff_pk a) \<or> staff_id r = None) \<and>
                               status_matches st r) (exeat_requests db))) \<and>
     set (items resp) \<subseteq>
       {r \<in> set (exeat_requests db).
          (staff_id r = Some (staff_pk a) \<or> staff_id r = None) \<and> status_matches st r} \<and>
     (\<forall>r \<in> set (exeat_requests db).
        (staff_id r = Some (staff_pk a) \<or> staff_id r = None) \<and> status_matches st r \<longrightarrow>
        (\<exists>page' resp'. 1 \<le> page' \<and>
           staff_get_exeats db a page' per_page (map_option safe_name st) sort_by ascending =
             Inr resp' \<and>
           r \<in> set (items resp'))) \<and>
     (\<forall>r \<in> set (exeat_requests db).
        staff_id r = None \<and> status_id r = status_value PENDING \<and>
        (st = None \<or> st = Some PENDING) \<longrightarrow>
        (\<exists>page' resp'. 1 \<le> page' \<and>
           staff_get_exeats db a page' per_page (map_option safe_name st) sort_by ascending =
             Inr resp' \<and>
           r \<in> set (items resp'))) \<and>
     (\<forall>status page'.
        status_parameter status = Inr st \<longrightarrow>
        staff_get_exeats db a page' per_page status sort_by ascending =
        staff_get_exeats db a page' per_page (map_option safe_name st) sort_by ascending) \<and>
     (\<forall>d b i comment now r' db'.
        review d db b i comment now = (Inr r', db') \<and> staff_pk b \<noteq> staff_pk a \<longrightarrow>
        (\<forall>page' per_page' status' sort_by' ascending' resp'.
           staff_get_exeats db' a page' per_page' status' sort_by' ascending' = Inr resp' \<longrightarrow>
           (\<forall>x \<in> set (items resp'). er_id x \<noteq> i)))"
proof -
  let ?own = "\<lambda>r. staff_id r = Some (staff_pk a) \<or> staff_id r = None"
  define status where "status = map_option safe_name st"
  have parsed: "status_parameter status = Inr st"
    unfolding status_def by (rule status_parameter_safe_name)
  have unfold: "staff_get_exeats db a p per_page status sort_by ascending =
                paginated_exeats_query db ?own p per_page st sort_by ascending" for p
    using parsed by (rule staff_get_exeats_parsed)
  have "per_page \<noteq> 0" using assms(2) by simp
  from paginated_total_items [OF this, of db ?own page st sort_by ascending]
  obtain resp where
    r: "paginated_exeats_query db ?own page per_page st sort_by ascending = Inr resp"
    and n: "total_items resp =
              int (length (filter (\<lambda>r. ?own r \<and> status_matches st r) (exeat_requests db)))"
    by blast
  have sub: "set (items resp) \<subseteq> {r \<in> set (exeat_requests db). ?own r \<and> status_matches st r}"
    using paginated_items_subset [OF r] .
  have vis: "\<exists>page' resp'. 1 \<le> page' \<and>
               staff_get_exeats db a page' per_page status sort_by ascending = Inr resp' \<and>
               x \<in> set (items resp')"
    if "x \<in> set (exeat_requests db)" and "?own x \<and> status_matches st x" for x
  proof -
    have "x \<in> set (filtered_exeats db ?own st sort_by ascending)"
      using that by (simp add: set_filtered_exeats)
    from paginated_item_on_some_page [OF assms(2) this] show ?thesis
      unfolding unfold .
  qed
  have pend: "\<exists>page' resp'. 1 \<le> page' \<and>
               staff_get_exeats db a page' per_page status sort_by ascending = Inr resp' \<and>
               x \<in> set (items resp')"
    if "x \<in> set (exeat_requests db)"
      and "staff_id x = None \<and> status_id x = status_value PENDING \<and>
           (st = None \<or> st = Some PENDING)" for x
  proof -
    have "?own x \<and> status_matches st x"
      using that(2) by (auto simp: status_matches_def)
    with that(1) show ?thesis by (rule vis)
  qed
  have same: "staff_get_exeats db a page' per_page status' sort_by ascending =
              staff_get_exeats db a page' per_page status sort_by ascending"
    if "status_parameter status' = Inr st" for status' page'
    unfolding unfold using that by (rule staff_get_exeats_parsed)
  have gone: "er_id x \<noteq> i"
    if "review d db b i comment now = (Inr r', db') \<and> staff_pk b \<noteq> staff_pk a"
      and "staff_get_exeats db' a page' per_page' status' sort_by' ascending' = Inr resp'"
      and "x \<in> set (items resp')"
    for d b i comment now r' db' page' per_page' status' sort_by' ascending' resp' x
  proof
    assume k: "er_id x = i"
    from staff_get_exeats_items [OF that(2)] that(3)
    have x: "x \<in> set (exeat_requests db')"
      and own: "staff_id x = Some (staff_pk a) \<or> staff_id x = None"
      by auto
    from that(1) have "review d db b i comment now = (Inr r', db')" by simp
    from rows_after_review [OF this x k] have "staff_id x = Some (staff_pk b)" .
    with own that(1) show False by simp
  qed
  show ?thesis
    unfolding status_def [symmetric]
  proof (rule exI [of _ resp], intro conjI ballI allI impI)
    show "staff_get_exeats db a page per_page status sort_by ascending = Inr resp"
      unfolding unfold by (rule r)
    show "total_items resp =
            int (length (filter (\<lambda>r. ?own r \<and> status_matches st r) (exeat_requests db)))"
      by (rule n)
    show "set (items resp) \<subseteq> {r \<in> set (exeat_requests db). ?own r \<and> status_matches st r}"
      by (rule sub)
  next
    fix x
    assume "x \<in> set (exeat_requests db)" and "?own x \<and> status_matches st x"
    then show "\<exists>page' resp'. 1 \<le> page' \<and>
               staff_get_exeats db a page' per_page status sort_by ascending = Inr resp' \<and>
               x \<in> set (items resp')"
      by (rule vis)
  next
    fix x
    assume "x \<in> set (exeat_requests db)"
      and "staff_id x = None \<and> status_id x = status_value PENDING \<and>
           (st = None \<or> st = Some PENDING)"
    then show "\<exists>page' resp'. 1 \<le> page' \<and>
               staff_get_exeats db a page' per_page status sort_by ascending = Inr resp' \<and>
               x \<in> set (items resp')"
      by (rule pend)
  next
    fix status' page'
    assume "status_parameter status' = Inr st"
    then show "staff_get_exeats db a page' per_page status' sort_by ascending =
               staff_get_exeats db a page' per_page status sort_by ascending"
      by (rule same)
  next
    fix d b i comment now r' db' page' per_page' status' sort_by' ascending' resp' x
    assume "review d db b i comment now = (Inr r', db') \<and> staff_pk b \<noteq> staff_pk a"
      and "staff_get_exeats db' a page' per_page' status' sort_by' ascending' = Inr resp'"
      and "x \<in> set (items resp')"
    then show "er_id x \<noteq> i" by (rule gone)
  qed
qed

theorem staff_listing_witness:
  "(\<exists>resp.
      staff_get_exeats example_db example_staff_b 1 20 (Some ''approved'') Sort_leave_start True =
        Inr resp \<and>
      total_items resp = 1 \<and>
      set (items resp) \<subseteq> {example_reviewed} \<and>
      example_pending \<notin> set (items resp)) \<and>
   (\<exists>resp.
      staff_get_exeats example_db example_staff_a 1 20 None Sort_leave_start True = Inr resp \<and>
      total_items resp = 1 \<and>
      set (items resp) \<subseteq> {example_pending} \<and>
      (\<exists>page' resp'. 1 \<le> page' \<and>
         staff_get_exeats example_db example_staff_a page' 20 None Sort_leave_start True =
           Inr resp' \<and>
         example_pending \<in> set (items resp')))"
proof -
  have h: "(1::int) \<le> 1" "(1::int) \<le> 20" "(20::int) \<le> 100"
    by simp_all
  have named: "map_option safe_name (Some APPROVED) = Some ''approved''"
    and absent: "map_option safe_name None = None"
    by simp_all
  have count_b: "int (length (filter
      (\<lambda>r. (staff_id r = Some (staff_pk example_staff_b) \<or> staff_id r = None) \<and>
            status_matches (Some APPROVED) r) (exeat_requests example_db))) = 1"
    by (simp add: status_matches_def example_defs)
  have rows_b: "{r \<in> set (exeat_requests example_db).
      (staff_id r = Some (staff_pk example_staff_b) \<or> staff_id r = None) \<and>
      status_matches (Some APPROVED) r} = {example_reviewed}"
    by (auto simp: status_matches_def example_defs)
  have differ: "example_pending \<noteq> example_reviewed"
    by (simp add: example_defs)
  from staff_listing [OF h, of example_db example_staff_b "Some APPROVED" Sort_leave_start True,
      unfolded named]
  obtain resp_b where
    rb: "staff_get_exeats example_db example_staff_b 1 20 (Some ''approved'')
           Sort_leave_start True = Inr resp_b"
    and nb: "total_items resp_b = int (length (filter
      (\<lambda>r. (staff_id r = Some (staff_pk example_staff_b) \<or> staff_id r = None) \<and>
            status_matches (Some APPROVED) r) (exeat_requests example_db)))"
    and subb: "set (items resp_b) \<subseteq> {r \<in> set (exeat_requests example_db).
      (staff_id r = Some (staff_pk example_staff_b) \<or> staff_id r = None) \<and>
      status_matches (Some APPROVED) r}"
    by blast
  have b1: "total_items resp_b = 1" using nb count_b by simp
  have b2: "set (items resp_b) \<subseteq> {example_reviewed}" using subb rows_b by simp
  have b3: "example_pending \<notin> set (items resp_b)" using b2 differ by auto
  have b: "\<exists>resp.
      staff_get_exeats example_db example_staff_b 1 20 (Some ''approved'') Sort_leave_start True =
        Inr resp \<and>
      total_items resp = 1 \<and>
      set (items resp) \<subseteq> {example_reviewed} \<and>
      example_pending \<notin> set (items resp)"
    using rb b1 b2 b3 by (intro exI [of _ resp_b] conjI)
  have count: "int (length (filter
      (\<lambda>r. (staff_id r = Some (staff_pk example_staff_a) \<or> staff_id r = None) \<and>
            status_matches None r) (exeat_requests example_db))) = 1"
    by (simp add: status_matches_def example_defs)
  have rows: "{r \<in> set (exeat_requests example_db).
      (staff_id r = Some (staff_pk example_staff_a) \<or> staff_id r = None) \<and>
      status_matches None r} = {example_pending}"
    by (auto simp: status_matches_def example_defs)
  have pending: "example_pending \<in> set (exeat_requests example_db)"
    "staff_id example_pending = None \<and> status_id example_pending = status_value PENDING \<and>
     (None = (None :: ExeatRequestStatusEnum option) \<or> None = Some PENDING)"
    by (simp_all add: example_defs)
  from staff_listing [OF h, of example_db example_staff_a None Sort_leave_start True,
      unfolded absent]
  obtain resp where
    r: "staff_get_exeats example_db example_staff_a 1 20 None Sort_leave_start True = Inr resp"
    and n: "total_items resp = int (length (filter
      (\<lambda>r. (staff_id r = Some (staff_pk example_staff_a) \<or> staff_id r = None) \<and>
            status_matches None r) (exeat_requests example_db)))"
    and sub: "set (items resp) \<subseteq> {r \<in> set (exeat_requests example_db).
      (staff_id r = Some (staff_pk example_staff_a) \<or> staff_id r = None) \<and>
      status_matches None r}"
    and vis: "\<forall>r \<in> set (exeat_requests example_db).
        staff_id r = None \<and> status_id r = status_value PENDING \<and>
        (None = (None :: ExeatRequestStatusEnum option) \<or> None = Some PENDING) \<longrightarrow>
        (\<exists>page' resp'. 1 \<le> page' \<and>
           staff_get_exeats example_db example_staff_a page' 20 None Sort_leave_start True =
             Inr resp' \<and>
           r \<in> set (items resp'))"
    by blast
  have 1: "total_items resp = 1" using n count by simp
  have 2: "set (items resp) \<subseteq> {example_pending}" using sub rows by simp
  have 3: "\<exists>page' resp'. 1 \<le> page' \<and>
        staff_get_exeats example_db example_staff_a page' 20 None Sort_leave_start True =
          Inr resp' \<and>
        example_pending \<in> set (items resp')"
    using vis pending by blast
  have a: "\<exists>resp.
      staff_get_exeats example_db example_staff_a 1 20 None Sort_leave_start True = Inr resp \<and>
      total_items resp = 1 \<and>
      set (items resp) \<subseteq> {example_pending} \<and>
      (\<exists>page' resp'. 1 \<le> page' \<and>
         staff_get_exeats example_db example_staff_a page' 20 None Sort_leave_start True =
           Inr resp' \<and>
         example_pending \<in> set (items resp'))"
    using r 1 2 3 by (intro exI [of _ resp] conjI)
  from b a show ?thesis by (rule conjI)
qed

section \<open>Submission\<close>

lemma fold_max_ge: "m \<le> fold (\<lambda>r m. max (er_id r) m) rows m"
  by (induction rows arbitrary: m) (auto intro: order_trans [OF max.cobounded2])

lemma fold_max_ge_elem: "r \<in> set rows \<Longrightarrow> er_id r \<le> fold (\<lambda>r m. max (er_id r) m) rows m"
proof (induction rows arbitrary: m)
  case Nil
  then show ?case by simp
next
  case (Cons x rows)
  show ?case
  proof (cases "r = x")
    case True
    have "er_id x \<le> max (er_id x) m" by simp
    also have "\<dots> \<le> fold (\<lambda>r m. max (er_id r) m) rows (max (er_id x) m)"
      by (rule fold_max_ge)
    finally show ?thesis using True by simp
  next
    case False
    with Cons.prems have "r \<in> set rows" by simp
    from Cons.IH [OF this] show ?thesis by simp
  qed
qed

lemma next_exeat_id_fresh: "r \<in> set rows \<Longrightarrow> er_id r < next_exeat_id rows"
  using fold_max_ge_elem [of r rows 0] by (simp add: next_exeat_id_def)

text \<open>
  A reason of 256 characters does not pass the schema of the request body: the call
  fails and nothing is stored.
\<close>

theorem post_submit_counterexample:
  "post_submit example_db example_student 110 150 (replicate 256 CHR ''x'') 500 =
     (Inl (RequestValidationError ''reason''), example_db)"
  by (simp add: post_submit_def validate_ExeatRequestCreate_def)

text \<open>
  C9, as the code has it. For every student, every pair of leave timestamps, in either
  order, and every reason of at most 255 characters, submit succeeds whatever the store
  holds already: it appends one new request with a fresh id, owned by that student, with
  status pending, submission time now, the given window and reason, and no review data.
  The leave window is not checked and no other request is consulted or changed.
\<close>

theorem post_submit_inserts_pending:
  assumes "length text \<le> 255"
  shows "\<exists>new.
     post_submit db student start end_time text now =
       (Inr new, db\<lparr>exeat_requests := exeat_requests db @ [new]\<rparr>) \<and>
     student_id new = student_pk student \<and>
     status_id new = status_value PENDING \<and>
     submission_time new = now \<and>
     leave_start new = start \<and> leave_end new = end_time \<and> reason new = text \<and>
     staff_id new = None \<and> staff_review_time new = None \<and> staff_comment new = None \<and>
     (\<forall>r \<in> set (exeat_requests db). er_id r \<noteq> er_id new)"
proof -
  let ?new = "\<lparr>er_id = next_exeat_id (exeat_requests db), student_id = student_pk student,
               leave_start = start, leave_end = end_time, submission_time = now,
               reason = text, status_id = status_value PENDING, staff_id = None,
               staff_review_time = None, staff_comment = None\<rparr>"
  have "post_submit db student start end_time text now =
          (Inr ?new, db\<lparr>exeat_requests := exeat_requests db @ [?new]\<rparr>)"
    using assms
    by (simp add: post_submit_def validate_ExeatRequestCreate_def submit_exeat_request_def Let_def)
  moreover have "\<forall>r \<in> set (exeat_requests db). er_id r \<noteq> er_id ?new"
    using next_exeat_id_fresh [of _ "exeat_requests db"] by fastforce
  ultimately show ?thesis
    by (intro exI [of _ ?new]) simp
qed

theorem post_submit_inserts_pending_witness:
  "\<exists>new.
     post_submit example_db example_student 400 350 ''Family event'' 500 =
       (Inr new, example_db\<lparr>exeat_requests := exeat_requests example_db @ [new]\<rparr>) \<and>
     student_id new = student_pk example_student \<and>
     status_id new = status_value PENDING \<and>
     submission_time new = 500 \<and>
     leave_start new = 400 \<and> leave_end new = 350 \<and> er_id new = 3"
proof -
  have h: "length ''Family event'' \<le> 255" by simp
  from post_submit_inserts_pending [OF h, of example_db example_student 400 350 500]
  obtain new where
    a: "post_submit example_db example_student 400 350 ''Family event'' 500 =
          (Inr new, example_db\<lparr>exeat_requests := exeat_requests example_db @ [new]\<rparr>)"
    and b: "student_id new = student_pk example_student"
      "status_id new = status_value PENDING" "submission_time new = 500"
      "leave_start new = 400" "leave_end new = 350"
    by blast
  have "fst (post_submit example_db example_student 400 350 ''Family event'' 500) =
          Inr \<lparr>er_id = 3, student_id = 5, leave_start = 400, leave_end = 350,
               submission_time = 500, reason = ''Family event'', status_id = 1,
               staff_id = None, staff_review_time = None, staff_comment = None\<rparr>"
    by (simp add: post_submit_def validate_ExeatRequestCreate_def submit_exeat_request_def
          next_exeat_id_def Let_def example_defs)
  with a have c: "er_id new = 3" by simp
  show ?thesis using a b c by (intro exI [of _ new] conjI)
qed

section \<open>Identity resolution and revocation\<close>

lemma jwt_sig_dot:
  assumes "CHR ''.'' \<in> set token"
  shows "jwt_sig token = Inr (rev (takeWhile (\<lambda>c. c \<noteq> CHR ''.'') (rev token)))"
  using assms by (simp add: jwt_sig_def rsplit_dot_def)

lemma is_jwt_revoked_sig:
  assumes "jwt_sig token = Inr sg"
  shows "is_jwt_revoked db token = Inr (\<exists>t \<in> set (revoked_tokens db). revoked_sig t = sg)"
  using assms by (auto simp: is_jwt_revoked_def find_None_iff)

lemma find_Some_mem: "find P xs = Some x \<Longrightarrow> x \<in> set xs \<and> P x"
  by (induction xs) (auto split: if_splits)

lemma get_current_user_cases:
  assumes "jwt_sig token = Inr sg" and "payload_iat p = Some iat"
  shows "get_current_user utc_offset db token p =
     (if \<exists>t \<in> set (revoked_tokens db). revoked_sig t = sg then Inl error_invalid_credentials
      else case payload_sub p of
        None \<Rightarrow> Inl error_invalid_credentials
      | Some e \<Rightarrow>
          (case find (\<lambda>u. email u = e) (users db) of
             None \<Rightarrow> Inl error_invalid_credentials
           | Some u \<Rightarrow>
               if time_joined u > iat + utc_offset then Inl error_invalid_credentials
               else Inr u))"
  using assms
  by (simp add: get_current_user_def is_jwt_revoked_sig datetime_fromtimestamp_def)

lemma revoke_jwt_sig:
  assumes "jwt_sig token = Inr sg"
  shows "\<exists>db'. revoke_jwt db token exp_time = Inr db' \<and>
           (\<exists>t \<in> set (revoked_tokens db'). revoked_sig t = sg \<and> revoked_exp t = exp_time)"
proof (cases "find (\<lambda>t. revoked_sig t = sg) (revoked_tokens db)")
  case None
  with assms show ?thesis by (simp add: revoke_jwt_def)
next
  case (Some t0)
  let ?entry = "\<lparr>revoked_sig = sg, revoked_exp = exp_time\<rparr>"
  let ?rows = "map (\<lambda>t. if revoked_sig t = sg then ?entry else t) (revoked_tokens db)"
  from Some have "t0 \<in> set (revoked_tokens db)" and "revoked_sig t0 = sg"
    using find_Some_mem [of "\<lambda>t. revoked_sig t = sg"] by blast+
  then have mem: "?entry \<in> set ?rows"
    by force
  have r: "revoke_jwt db token exp_time = Inr (db\<lparr>revoked_tokens := ?rows\<rparr>)"
    using assms Some by (simp add: revoke_jwt_def Let_def)
  have "\<exists>t \<in> set (revoked_tokens (db\<lparr>revoked_tokens := ?rows\<rparr>)).
          revoked_sig t = sg \<and> revoked_exp t = exp_time"
    using mem by (intro bexI [of _ ?entry]) simp_all
  with r show ?thesis by blast
qed

lemma revoked_rejected:
  assumes "jwt_sig token = Inr sg"
    and "\<exists>t \<in> set (revoked_tokens db). revoked_sig t = sg"
  shows "authenticated_user decode utc_offset db token = Inl error_invalid_credentials"
    and "authenticated_student decode utc_offset db token = Inl error_invalid_credentials"
    and "authenticated_staff decode utc_offset db token = Inl error_invalid_credentials"
    and "authenticated_security_operative decode utc_offset db token =
           Inl error_invalid_credentials"
proof -
  have g: "get_current_user utc_offset db token p = Inl error_invalid_credentials" for p
    using assms by (simp add: get_current_user_def is_jwt_revoked_sig)
  show u: "authenticated_user decode utc_offset db token = Inl error_invalid_credentials"
    by (simp add: authenticated_user_def decoded_token_def g split: option.splits)
  show "authenticated_student decode utc_offset db token = Inl error_invalid_credentials"
    by (simp add: authenticated_student_def u)
  show "authenticated_staff decode utc_offset db token = Inl error_invalid_credentials"
    by (simp add: authenticated_staff_def u)
  show "authenticated_security_operative decode utc_offset db token =
          Inl error_invalid_credentials"
    by (simp add: authenticated_security_operative_def u)
qed

lemma logout_revoked_again:
  assumes "jwt_sig token = Inr sg" and "decode token = Some p" and "payload_exp p = Some e"
  shows "\<exists>db'. logout decode db token = (Inr (), db')"
proof -
  from revoke_jwt_sig [OF assms(1), of db e] obtain db' where
    "revoke_jwt db token e = Inr db'" by blast
  with assms(2,3) show ?thesis
    by (simp add: logout_def decoded_token_def)
qed

text \<open>
  The token \<open>h.p.s\<close> is revoked on the example store by \<^verbatim>\<open>/revoke\<close>. Identity
  resolution then rejects it, but a second call of \<^verbatim>\<open>/revoke\<close> with the same,
  revoked token succeeds: that endpoint does not reject a revoked token.
\<close>

theorem logout_accepts_revoked_token:
  "fst (logout example_decode example_db ''h.p.s'') = Inr () \<and>
   authenticated_user example_decode 0 (snd (logout example_decode example_db ''h.p.s'')) ''h.p.s'' =
     Inl error_invalid_credentials \<and>
   fst (logout example_decode (snd (logout example_decode example_db ''h.p.s'')) ''h.p.s'') =
     Inr ()"
  by (simp add: logout_def decoded_token_def example_decode_def revoke_jwt_def jwt_sig_def
        rsplit_dot_def authenticated_user_def get_current_user_def is_jwt_revoked_def
        example_db_def example_payload_def)

text \<open>
  C5, as the code has it. Take a token with a signature segment whose decoded payload
  carries an issue time. On every host, identity resolution fails with the 401 error when
  the signature segment is in the revocation ledger, or the payload has no subject, or no
  user has the subject as email; and when it does not fail with that error, it returns
  the user with that email. On a host whose local time is UTC it fails with the 401
  error exactly in these three cases and when the user found joined later than the issue
  time. Revoking the token records its signature segment, and from then on the token is
  rejected with the 401 error by each dependency chain that resolves the caller (user,
  student, staff, security operative), on every host and whatever the decoder says about
  its expiry; \<^verbatim>\<open>/revoke\<close> itself still accepts the token as long as it decodes.
\<close>

theorem identity_resolution:
  assumes "CHR ''.'' \<in> set token" and "payload_iat p = Some iat"
  shows "\<exists>sg. jwt_sig token = Inr sg \<and>
    (\<forall>utc_offset.
       ((\<exists>t \<in> set (revoked_tokens db). revoked_sig t = sg) \<or>
        payload_sub p = None \<or>
        (\<exists>e. payload_sub p = Some e \<and> (\<forall>u \<in> set (users db). email u \<noteq> e)) \<longrightarrow>
        get_current_user utc_offset db token p = Inl error_invalid_credentials) \<and>
       (get_current_user utc_offset db token p \<noteq> Inl error_invalid_credentials \<longrightarrow>
          (\<exists>e u. payload_sub p = Some e \<and> find (\<lambda>u. email u = e) (users db) = Some u \<and>
                 u \<in> set (users db) \<and> email u = e \<and>
                 get_current_user utc_offset db token p = Inr u))) \<and>
    (get_current_user 0 db token p = Inl error_invalid_credentials \<longleftrightarrow>
       (\<exists>t \<in> set (revoked_tokens db). revoked_sig t = sg) \<or>
       payload_sub p = None \<or>
       (\<exists>e. payload_sub p = Some e \<and> (\<forall>u \<in> set (users db). email u \<noteq> e)) \<or>
       (\<exists>e u. payload_sub p = Some e \<and> find (\<lambda>u. email u = e) (users db) = Some u \<and>
              time_joined u > iat)) \<and>
    (\<forall>exp_time. \<exists>db'.
       revoke_jwt db token exp_time = Inr db' \<and>
       (\<exists>t \<in> set (revoked_tokens db'). revoked_sig t = sg \<and> revoked_exp t = exp_time) \<and>
       (\<forall>decode utc_offset.
          authenticated_user decode utc_offset db' token = Inl error_invalid_credentials \<and>
          authenticated_student decode utc_offset db' token = Inl error_invalid_credentials \<and>
          authenticated_staff decode utc_offset db' token = Inl error_invalid_credentials \<and>
          authenticated_security_operative decode utc_offset db' token =
            Inl error_invalid_credentials \<and>
          (\<forall>p' e. decode token = Some p' \<and> payload_exp p' = Some e \<longrightarrow>
             (\<exists>db''. logout decode db' token = (Inr (), db'')))))"
proof -
  define sg where "sg = rev (takeWhile (\<lambda>c. c \<noteq> CHR ''.'') (rev token))"
  have s: "jwt_sig token = Inr sg"
    unfolding sg_def using assms(1) by (rule jwt_sig_dot)
  note c = get_current_user_cases [OF s assms(2), of _ db]
  have fail: "get_current_user utc_offset db token p = Inl error_invalid_credentials"
    if "(\<exists>t \<in> set (revoked_tokens db). revoked_sig t = sg) \<or>
        payload_sub p = None \<or>
        (\<exists>e. payload_sub p = Some e \<and> (\<forall>u \<in> set (users db). email u \<noteq> e))"
    for utc_offset
  proof -
    have "find (\<lambda>u. email u = e) (users db) = None"
      if "\<forall>u \<in> set (users db). email u \<noteq> e" for e
      using that by (simp add: find_None_iff)
    with that show ?thesis unfolding c by (auto split: option.splits)
  qed
  have iff: "get_current_user 0 db token p = Inl error_invalid_credentials \<longleftrightarrow>
       (\<exists>t \<in> set (revoked_tokens db). revoked_sig t = sg) \<or>
       payload_sub p = None \<or>
       (\<exists>e. payload_sub p = Some e \<and> (\<forall>u \<in> set (users db). email u \<noteq> e)) \<or>
       (\<exists>e u. payload_sub p = Some e \<and> find (\<lambda>u. email u = e) (users db) = Some u \<and>
              time_joined u > iat)"
    unfolding c by (auto simp: find_None_iff split: option.splits dest: find_Some_mem)
  have ok: "\<exists>e u. payload_sub p = Some e \<and> find (\<lambda>u. email u = e) (users db) = Some u \<and>
              u \<in> set (users db) \<and> email u = e \<and>
              get_current_user utc_offset db token p = Inr u"
    if "get_current_user utc_offset db token p \<noteq> Inl error_invalid_credentials"
    for utc_offset
    using that unfolding c
    by (auto split: option.splits if_splits dest: find_Some_mem)
  have rev: "\<exists>db'.
       revoke_jwt db token exp_time = Inr db' \<and>
       (\<exists>t \<in> set (revoked_tokens db'). revoked_sig t = sg \<and> revoked_exp t = exp_time) \<and>
       (\<forall>decode utc_offset.
          authenticated_user decode utc_offset db' token = Inl error_invalid_credentials \<and>
          authenticated_student decode utc_offset db' token = Inl error_invalid_credentials \<and>
          authenticated_staff decode utc_offset db' token = Inl error_invalid_credentials \<and>
          authenticated_security_operative decode utc_offset db' token =
            Inl error_invalid_credentials \<and>
          (\<forall>p' e. decode token = Some p' \<and> payload_exp p' = Some e \<longrightarrow>
             (\<exists>db''. logout decode db' token = (Inr (), db''))))"
    for exp_time
  proof -
    from revoke_jwt_sig [OF s, of db exp_time] obtain db' where
      r: "revoke_jwt db token exp_time = Inr db'"
      and l: "\<exists>t \<in> set (revoked_tokens db'). revoked_sig t = sg \<and> revoked_exp t = exp_time"
      by blast
    from l have l': "\<exists>t \<in> set (revoked_tokens db'). revoked_sig t = sg" by blast
    have again: "\<exists>db''. logout decode db' token = (Inr (), db'')"
      if "decode token = Some p' \<and> payload_exp p' = Some e" for decode p' e
      using that logout_revoked_again [OF s, of decode p' e db'] by blast
    show ?thesis
      using r l revoked_rejected [OF s l'] again by blast
  qed
  show ?thesis
  proof (rule exI [of _ sg], intro conjI allI impI)
    show "jwt_sig token = Inr sg" by (rule s)
    show "get_current_user utc_offset db token p = Inl error_invalid_credentials"
      if "(\<exists>t \<in> set (revoked_tokens db). revoked_sig t = sg) \<or>
          payload_sub p = None \<or>
          (\<exists>e. payload_sub p = Some e \<and> (\<forall>u \<in> set (users db). email u \<noteq> e))"
      for utc_offset
      using that by (rule fail)
    show "\<exists>e u. payload_sub p = Some e \<and> find (\<lambda>u. email u = e) (users db) = Some u \<and>
              u \<in> set (users db) \<and> email u = e \<and>
              get_current_user utc_offset db token p = Inr u"
      if "get_current_user utc_offset db token p \<noteq> Inl error_invalid_credentials"
      for utc_offset
      using that by (rule ok)
    show "get_current_user 0 db token p = Inl error_invalid_credentials \<longleftrightarrow>
       (\<exists>t \<in> set (revoked_tokens db). revoked_sig t = sg) \<or>
       payload_sub p = None \<or>
       (\<exists>e. payload_sub p = Some e \<and> (\<forall>u \<in> set (users db). email u \<noteq> e)) \<or>
       (\<exists>e u. payload_sub p = Some e \<and> find (\<lambda>u. email u = e) (users db) = Some u \<and>
              time_joined u > iat)"
      by (rule iff)
    show "\<exists>db'.
       revoke_jwt db token exp_time = Inr db' \<and>
       (\<exists>t \<in> set (revoked_tokens db'). revoked_sig t = sg \<and> revoked_exp t = exp_time) \<and>
       (\<forall>decode utc_offset.
          authenticated_user decode utc_offset db' token = Inl error_invalid_credentials \<and>
          authenticated_student decode utc_offset db' token = Inl error_invalid_credentials \<and>
          authenticated_staff decode utc_offset db' token = Inl error_invalid_credentials \<and>
          authenticated_security_operative decode utc_offset db' token =
            Inl error_invalid_credentials \<and>
          (\<forall>p' e. decode token = Some p' \<and> payload_exp p' = Some e \<longrightarrow>
             (\<exists>db''. logout decode db' token = (Inr (), db''))))"
      for exp_time
      by (rule rev)
  qed
qed

theorem identity_resolution_witness:
  "get_current_user 0 example_db ''h.p.s'' example_payload = Inr example_user \<and>
   (\<exists>db'. revoke_jwt example_db ''h.p.s'' 1860 = Inr db' \<and>
      (\<forall>decode utc_offset.
         authenticated_user decode utc_offset db' ''h.p.s'' = Inl error_invalid_credentials \<and>
         authenticated_student decode utc_offset db' ''h.p.s'' = Inl error_invalid_credentials \<and>
         authenticated_staff decode utc_offset db' ''h.p.s'' = Inl error_invalid_credentials \<and>
         authenticated_security_operative decode utc_offset db' ''h.p.s'' =
           Inl error_invalid_credentials))"
proof -
  have h: "CHR ''.'' \<in> set ''h.p.s''" "payload_iat example_payload = Some 60"
    by (simp_all add: example_defs)
  have ledger: "revoked_tokens example_db = []"
    and sub: "payload_sub example_payload = Some ''ada@example.com''"
    and usr: "find (\<lambda>u. email u = ''ada@example.com'') (users example_db) = Some example_user"
    and joined: "\<not> time_joined example_user > 60"
    by (simp_all add: example_defs)
  from identity_resolution [OF h, of example_db] obtain sg where
    ok: "\<forall>utc_offset.
       ((\<exists>t \<in> set (revoked_tokens example_db). revoked_sig t = sg) \<or>
        payload_sub example_payload = None \<or>
        (\<exists>e. payload_sub example_payload = Some e \<and>
             (\<forall>u \<in> set (users example_db). email u \<noteq> e)) \<longrightarrow>
        get_current_user utc_offset example_db ''h.p.s'' example_payload =
          Inl error_invalid_credentials) \<and>
       (get_current_user utc_offset example_db ''h.p.s'' example_payload \<noteq>
          Inl error_invalid_credentials \<longrightarrow>
          (\<exists>e u. payload_sub example_payload = Some e \<and>
                 find (\<lambda>u. email u = e) (users example_db) = Some u \<and>
                 u \<in> set (users example_db) \<and> email u = e \<and>
                 get_current_user utc_offset example_db ''h.p.s'' example_payload = Inr u))"
    and iff: "get_current_user 0 example_db ''h.p.s'' example_payload =
                Inl error_invalid_credentials \<longleftrightarrow>
       (\<exists>t \<in> set (revoked_tokens example_db). revoked_sig t = sg) \<or>
       payload_sub example_payload = None \<or>
       (\<exists>e. payload_sub example_payload = Some e \<and> (\<forall>u \<in> set (users example_db). email u \<noteq> e)) \<or>
       (\<exists>e u. payload_sub example_payload = Some e \<and>
              find (\<lambda>u. email u = e) (users example_db) = Some u \<and> time_joined u > 60)"
    and rev: "\<forall>exp_time. \<exists>db'.
       revoke_jwt example_db ''h.p.s'' exp_time = Inr db' \<and>
       (\<exists>t \<in> set (revoked_tokens db'). revoked_sig t = sg \<and> revoked_exp t = exp_time) \<and>
       (\<forall>decode utc_offset.
          authenticated_user decode utc_offset db' ''h.p.s'' = Inl error_invalid_credentials \<and>
          authenticated_student decode utc_offset db' ''h.p.s'' = Inl error_invalid_credentials \<and>
          authenticated_staff decode utc_offset db' ''h.p.s'' = Inl error_invalid_credentials \<and>
          authenticated_security_operative decode utc_offset db' ''h.p.s'' =
            Inl error_invalid_credentials \<and>
          (\<forall>p' e. decode ''h.p.s'' = Some p' \<and> payload_exp p' = Some e \<longrightarrow>
             (\<exists>db''. logout decode db' ''h.p.s'' = (Inr (), db''))))"
    by blast
  have "\<exists>u \<in> set (users example_db). email u = ''ada@example.com''"
    by (simp add: example_defs)
  then have "get_current_user 0 example_db ''h.p.s'' example_payload \<noteq>
               Inl error_invalid_credentials"
    unfolding iff using ledger sub usr joined by simp
  with ok sub usr
  have 1: "get_current_user 0 example_db ''h.p.s'' example_payload = Inr example_user"
    by auto
  from rev have 2: "\<exists>db'. revoke_jwt example_db ''h.p.s'' 1860 = Inr db' \<and>
      (\<forall>decode utc_offset.
         authenticated_user decode utc_offset db' ''h.p.s'' = Inl error_invalid_credentials \<and>
         authenticated_student decode utc_offset db' ''h.p.s'' = Inl error_invalid_credentials \<and>
         authenticated_staff decode utc_offset db' ''h.p.s'' = Inl error_invalid_credentials \<and>
         authenticated_security_operative decode utc_offset db' ''h.p.s'' =
           Inl error_invalid_credentials)"
    by blast
  from 1 2 show ?thesis by (rule conjI)
qed

section \<open>Signup, login and identity resolution\<close>

lemma UserTypeEnum_from_safe_name_inverse:
  "UserTypeEnum_from_safe_name (UserTypeEnum_safe_name t) = Inr t"
  by (cases t; simp only: UserTypeEnum_safe_name.simps; code_simp)

lemma find_append_fresh:
  assumes "\<forall>u \<in> set xs. \<not> P u" and "P x"
  shows "find P (xs @ [x]) = Some x"
  using assms by (induction xs) auto

lemma validate_UserCreate_Inr:
  assumes "validate_UserCreate EmailStr body = Inr body"
  shows "\<exists>t. t \<noteq> ADMIN \<and> uc_user_type body = UserTypeEnum_safe_name t"
    and "EmailStr (uc_email body) = Some (uc_email body)"
proof -
  from assms have ty:
    "uc_user_type body \<in> set (map UserTypeEnum_safe_name [STUDENT, STAFF, SECURITY_OPERATIVE])"
    by (auto simp: validate_UserCreate_def split: if_splits)
  then show "\<exists>t. t \<noteq> ADMIN \<and> uc_user_type body = UserTypeEnum_safe_name t"
    by auto
  from assms ty obtain e where e: "EmailStr (uc_email body) = Some e"
    and v: "validate_based_on_user_type (body\<lparr>uc_email := e\<rparr>) = Inr body"
    by (auto simp: validate_UserCreate_def split: if_splits option.splits)
  from v have "body\<lparr>uc_email := e\<rparr> = body"
    by (auto simp: validate_based_on_user_type_def Let_def split: if_splits)
  then have "uc_email (body\<lparr>uc_email := e\<rparr>) = uc_email body" by simp
  then have "e = uc_email body" by simp
  with e show "EmailStr (uc_email body) = Some (uc_email body)" by simp
qed

lemma create_profile_Inr:
  assumes "t \<noteq> ADMIN"
    and "t = STUDENT \<longrightarrow>
           uc_matriculation_number body \<noteq> None \<and> uc_course_of_study body \<noteq> None \<and>
           uc_guardian_name body \<noteq> None \<and> uc_guardian_phone_number body \<noteq> None \<and>
           uc_guardian_relationship body \<noteq> None"
    and "t = STAFF \<longrightarrow> uc_staff_id body \<noteq> None \<and> uc_designation body \<noteq> None"
    and "t = SECURITY_OPERATIVE \<longrightarrow> uc_security_id body \<noteq> None \<and> uc_designation body \<noteq> None"
  shows "\<exists>db'. create_profile t body user db = (Inr (), db') \<and>
               users db' = users db \<and> revoked_tokens db' = revoked_tokens db"
  using assms by (cases t) (auto simp: create_profile_def Let_def)


lemma signup_Inr:
  assumes "validate_UserCreate EmailStr body = Inr body"
    and "uc_user_type body = ''student'' \<longrightarrow>
           uc_matriculation_number body \<noteq> None \<and> uc_course_of_study body \<noteq> None \<and>
           uc_guardian_name body \<noteq> None \<and> uc_guardian_phone_number body \<noteq> None \<and>
           uc_guardian_relationship body \<noteq> None"
    and "uc_user_type body = ''staff'' \<longrightarrow>
           uc_staff_id body \<noteq> None \<and> uc_designation body \<noteq> None"
    and "uc_user_type body = ''security_operative'' \<longrightarrow>
           uc_security_id body \<noteq> None \<and> uc_designation body \<noteq> None"
    and "\<forall>u \<in> set (users db). email u \<noteq> uc_email body"
  shows "\<exists>user db'.
     signup hashpw salt encode joined now body db =
       (Inr (create_access_token encode now (sub_claim (uc_email body)), user), db') \<and>
     users db' = users db @ [user] \<and> revoked_tokens db' = revoked_tokens db \<and>
     email user = uc_email body \<and> time_joined user = joined \<and>
     hashed_password user = hashpw (uc_password body) salt"
proof -
  from validate_UserCreate_Inr(1) [OF assms(1)] obtain t where
    t: "t \<noteq> ADMIN" and ty: "uc_user_type body = UserTypeEnum_safe_name t"
    by blast
  have parse: "UserTypeEnum_from_safe_name (uc_user_type body) = Inr t"
    unfolding ty by (rule UserTypeEnum_from_safe_name_inverse)
  define user where "user =
     \<lparr>user_pk = next_key (map user_pk (users db)),
      first_name = uc_first_name body,
      last_name = uc_last_name body,
      email = uc_email body,
      phone_number = uc_phone_number body,
      hashed_password = hashpw (uc_password body) salt,
      is_active = uc_is_active body,
      is_verified = uc_is_verified body,
      user_type_id = user_type_value t,
      profile_picture_id = None,
      time_joined = joined\<rparr>"
  have sel: "email user = uc_email body" "time_joined user = joined"
    "hashed_password user = hashpw (uc_password body) salt"
    by (simp_all add: user_def)
  have roles:
    "t = STUDENT \<longrightarrow>
       uc_matriculation_number body \<noteq> None \<and> uc_course_of_study body \<noteq> None \<and>
       uc_guardian_name body \<noteq> None \<and> uc_guardian_phone_number body \<noteq> None \<and>
       uc_guardian_relationship body \<noteq> None"
    "t = STAFF \<longrightarrow> uc_staff_id body \<noteq> None \<and> uc_designation body \<noteq> None"
    "t = SECURITY_OPERATIVE \<longrightarrow> uc_security_id body \<noteq> None \<and> uc_designation body \<noteq> None"
    using assms(2,3,4) ty by auto
  from create_profile_Inr [OF t roles, of user "db\<lparr>users := users db @ [user]\<rparr>"]
  obtain db' where
    p: "create_profile t body user (db\<lparr>users := users db @ [user]\<rparr>) = (Inr (), db')"
    and u: "users db' = users db @ [user]"
    and r: "revoked_tokens db' = revoked_tokens db"
    by auto
  have fresh: "\<not> (\<exists>u \<in> set (users db). email u = uc_email body)"
    using assms(5) by simp
  have "signup hashpw salt encode joined now body db =
          (Inr (create_access_token encode now (sub_claim (uc_email body)), user), db')"
    unfolding signup_def parse using fresh p
    by (simp add: Let_def user_def [symmetric] sel)
  with u r sel show ?thesis by blast
qed

lemma is_jwt_revoked_ledger:
  assumes "revoked_tokens db' = revoked_tokens db"
  shows "is_jwt_revoked db' token = is_jwt_revoked db token"
  using assms by (simp add: is_jwt_revoked_def split: sum.splits)

text \<open>
  C7 says that after a valid signup a login with the same address and password succeeds
  and yields a token whose identity resolution returns the user that the signup created.
  Take a body that the schema accepts as it is, with values in the fields of its role
  and an address that no user has, a bcrypt that accepts a password against its own
  hash, a decoder that returns the payload of the login token, and a ledger without the
  signature segment of that token. Then the signup stores a new user with that address
  and with the time of joining that the database gave, and the login succeeds; identity
  resolution of the login token returns that user when the time of joining is not later
  than the issue time of the token as the host reads it in its local time, and fails with
  the 401 error otherwise. On a host that runs on UTC, with a database clock on UTC, it
  returns the user for every login that is not earlier than the signup. On a host five
  hours behind UTC a login half an hour after the signup is rejected: the witness
  evaluates both on the example store.
\<close>

theorem signup_login_round_trip:
  assumes "validate_UserCreate EmailStr body = Inr body"
    and "uc_user_type body = ''student'' \<longrightarrow>
           uc_matriculation_number body \<noteq> None \<and> uc_course_of_study body \<noteq> None \<and>
           uc_guardian_name body \<noteq> None \<and> uc_guardian_phone_number body \<noteq> None \<and>
           uc_guardian_relationship body \<noteq> None"
    and "uc_user_type body = ''staff'' \<longrightarrow>
           uc_staff_id body \<noteq> None \<and> uc_designation body \<noteq> None"
    and "uc_user_type body = ''security_operative'' \<longrightarrow>
           uc_security_id body \<noteq> None \<and> uc_designation body \<noteq> None"
    and "\<forall>u \<in> set (users db). email u \<noteq> uc_email body"
    and "checkpw (uc_password body) (hashpw (uc_password body) salt)"
    and "decode (create_access_token encode now' (sub_claim (uc_email body))) =
           Some (to_encode now' (sub_claim (uc_email body)))"
    and "is_jwt_revoked db (create_access_token encode now' (sub_claim (uc_email body))) =
           Inr False"
  shows "\<exists>user db'.
     post_signup EmailStr hashpw salt encode joined now body db =
       (Inr (create_access_token encode now (sub_claim (uc_email body)), user), db') \<and>
     user \<notin> set (users db) \<and> user \<in> set (users db') \<and>
     email user = uc_email body \<and> time_joined user = joined \<and>
     login EmailStr checkpw encode now' db' (uc_email body) (uc_password body) =
       Inr (create_access_token encode now' (sub_claim (uc_email body))) \<and>
     authenticated_user decode utc_offset db'
         (create_access_token encode now' (sub_claim (uc_email body))) =
       (if joined \<le> now' + utc_offset then Inr user else Inl error_invalid_credentials)"
proof -
  define e where "e = uc_email body"
  define token' where "token' = create_access_token encode now' (sub_claim e)"
  from signup_Inr [OF assms(1,2,3,4,5), of hashpw salt encode joined now]
  obtain user db' where
    s: "signup hashpw salt encode joined now body db =
          (Inr (create_access_token encode now (sub_claim e), user), db')"
    and u: "users db' = users db @ [user]"
    and r: "revoked_tokens db' = revoked_tokens db"
    and em: "email user = e" and tj: "time_joined user = joined"
    and hp: "hashed_password user = hashpw (uc_password body) salt"
    unfolding e_def by blast
  have 1: "post_signup EmailStr hashpw salt encode joined now body db =
          (Inr (create_access_token encode now (sub_claim e), user), db')"
    by (simp add: post_signup_def assms(1) s)
  have 2: "user \<notin> set (users db)"
    using assms(5) em unfolding e_def by blast
  have 3: "user \<in> set (users db')"
    by (simp add: u)
  have "\<forall>x \<in> set (users db). \<not> email x = e"
    using assms(5) unfolding e_def by simp
  then have f: "find (\<lambda>x. email x = e) (users db') = Some user"
    unfolding u using em by (rule find_append_fresh)
  have v: "EmailStr e = Some e"
    unfolding e_def using assms(1) by (rule validate_UserCreate_Inr(2))
  have c: "checkpw (uc_password body) (hashed_password user)"
    unfolding hp by (rule assms(6))
  have a: "authenticate_user EmailStr checkpw db' e (uc_password body) = Some user"
    by (simp add: authenticate_user_def v f c)
  have 4: "login EmailStr checkpw encode now' db' e (uc_password body) = Inr token'"
    by (simp add: login_def a em token'_def)
  have d: "decoded_token decode token' = Inr (to_encode now' (sub_claim e))"
    using assms(7) by (simp add: decoded_token_def token'_def e_def)
  have l: "is_jwt_revoked db' token' = Inr False"
    using assms(8) is_jwt_revoked_ledger [OF r, of token']
    by (simp add: token'_def e_def)
  have g: "get_current_user utc_offset db' token' (to_encode now' (sub_claim e)) =
        (if joined \<le> now' + utc_offset then Inr user else Inl error_invalid_credentials)"
    by (simp add: get_current_user_def l to_encode_def sub_claim_def f tj
          datetime_fromtimestamp_def not_less [symmetric])
  have 5: "authenticated_user decode utc_offset db' token' =
        (if joined \<le> now' + utc_offset then Inr user else Inl error_invalid_credentials)"
    by (simp add: authenticated_user_def d g)
  show ?thesis
    unfolding e_def [symmetric] token'_def [symmetric]
  proof (rule exI [of _ user], rule exI [of _ db'], intro conjI)
    show "post_signup EmailStr hashpw salt encode joined now body db =
          (Inr (create_access_token encode now (sub_claim e), user), db')" by (rule 1)
    show "user \<notin> set (users db)" by (rule 2)
    show "user \<in> set (users db')" by (rule 3)
    show "email user = e" by (rule em)
    show "time_joined user = joined" by (rule tj)
    show "login EmailStr checkpw encode now' db' e (uc_password body) = Inr token'" by (rule 4)
    show "authenticated_user decode utc_offset db' token' =
        (if joined \<le> now' + utc_offset then Inr user else Inl error_invalid_credentials)"
      by (rule 5)
  qed
qed


theorem signup_login_round_trip_witness:
  "fst (post_signup example_EmailStr example_hashpw ''salt'' example_encode 100000 100000
          example_body example_db) = Inr (''h.p.o'', example_new_user) \<and>
   login example_EmailStr example_checkpw example_encode 101800
     (snd (post_signup example_EmailStr example_hashpw ''salt'' example_encode 100000 100000
             example_body example_db))
     ''bola@example.com'' ''s3cret'' = Inr ''h.p.l'' \<and>
   authenticated_user example_login_decode (- 18000)
     (snd (post_signup example_EmailStr example_hashpw ''salt'' example_encode 100000 100000
             example_body example_db))
     ''h.p.l'' = Inl error_invalid_credentials \<and>
   authenticated_user example_login_decode 0
     (snd (post_signup example_EmailStr example_hashpw ''salt'' example_encode 100000 100000
             example_body example_db))
     ''h.p.l'' = Inr example_new_user"
proof -
  define signed_up where "signed_up =
    post_signup example_EmailStr example_hashpw ''salt'' example_encode 100000 100000
      example_body example_db"
  have student: "UserTypeEnum_from_safe_name ''student'' = Inr STUDENT"
    using UserTypeEnum_from_safe_name_inverse [of STUDENT] by simp
  have token: "create_access_token example_encode 101800 (sub_claim (uc_email example_body)) =
                 ''h.p.l''"
    by (simp add: create_access_token_def to_encode_def sub_claim_def example_encode_def
          example_login_payload_def example_body_def ACCESS_TOKEN_EXPIRE_MINUTES_def)
  have payload: "to_encode 101800 (sub_claim (uc_email example_body)) = example_login_payload"
    by (simp add: to_encode_def sub_claim_def example_login_payload_def example_body_def
          ACCESS_TOKEN_EXPIRE_MINUTES_def)
  have h1: "validate_UserCreate example_EmailStr example_body = Inr example_body"
    by (simp add: validate_UserCreate_def validate_based_on_user_type_def unset_check_def
          example_EmailStr_def example_body_def)
  have h2: "uc_user_type example_body = ''student'' \<longrightarrow>
           uc_matriculation_number example_body \<noteq> None \<and>
           uc_course_of_study example_body \<noteq> None \<and>
           uc_guardian_name example_body \<noteq> None \<and>
           uc_guardian_phone_number example_body \<noteq> None \<and>
           uc_guardian_relationship example_body \<noteq> None"
    and h3: "uc_user_type example_body = ''staff'' \<longrightarrow>
           uc_staff_id example_body \<noteq> None \<and> uc_designation example_body \<noteq> None"
    and h4: "uc_user_type example_body = ''security_operative'' \<longrightarrow>
           uc_security_id example_body \<noteq> None \<and> uc_designation example_body \<noteq> None"
    and h5: "\<forall>u \<in> set (users example_db). email u \<noteq> uc_email example_body"
    and h6: "example_checkpw (uc_password example_body)
               (example_hashpw (uc_password example_body) ''salt'')"
    by (simp_all add: example_body_def example_defs example_checkpw_def example_hashpw_def)
  have h7: "example_login_decode
              (create_access_token example_encode 101800 (sub_claim (uc_email example_body))) =
            Some (to_encode 101800 (sub_claim (uc_email example_body)))"
    unfolding token payload by (simp add: example_login_decode_def)
  have h8: "is_jwt_revoked example_db
              (create_access_token example_encode 101800 (sub_claim (uc_email example_body))) =
            Inr False"
    unfolding token
    by (simp add: is_jwt_revoked_def jwt_sig_def rsplit_dot_def example_db_def)
  have "signed_up = signup example_hashpw ''salt'' example_encode 100000 100000
                      example_body example_db"
    unfolding signed_up_def by (simp add: post_signup_def h1)
  then have ev: "fst signed_up = Inr (''h.p.o'', example_new_user)"
    by (simp add: signup_def student create_profile_def Let_def next_key_def
          create_access_token_def to_encode_def sub_claim_def example_encode_def
          example_login_payload_def example_hashpw_def example_new_user_def
          user_type_value.simps example_body_def example_defs)
  note t = signup_login_round_trip
      [where EmailStr = example_EmailStr and body = example_body and db = example_db
         and checkpw = example_checkpw and hashpw = example_hashpw and salt = "''salt''"
         and decode = example_login_decode and encode = example_encode
         and now' = 101800 and joined = 100000 and now = 100000,
       OF h1 h2 h3 h4 h5 h6 h7 h8, folded signed_up_def, unfolded token]
  from t [where utc_offset = "- 18000"] obtain user db' where
    s: "signed_up = (Inr (create_access_token example_encode 100000
                            (sub_claim (uc_email example_body)), user), db')"
    and l: "login example_EmailStr example_checkpw example_encode 101800 db'
              (uc_email example_body) (uc_password example_body) = Inr ''h.p.l''"
    and a: "authenticated_user example_login_decode (- 18000) db' ''h.p.l'' =
              (if (100000 :: int) \<le> 101800 + - 18000 then Inr user
               else Inl error_invalid_credentials)"
    by blast
  from s ev have user: "user = example_new_user" and db': "snd signed_up = db'"
    by simp_all
  from t [where utc_offset = 0] obtain user0 db0 where
    s0: "signed_up = (Inr (create_access_token example_encode 100000
                            (sub_claim (uc_email example_body)), user0), db0)"
    and a0: "authenticated_user example_login_decode 0 db0 ''h.p.l'' =
              (if (100000 :: int) \<le> 101800 + 0 then Inr user0
               else Inl error_invalid_credentials)"
    by blast
  from s0 ev have user0: "user0 = example_new_user" and db0: "snd signed_up = db0"
    by simp_all
  have 1: "login example_EmailStr example_checkpw example_encode 101800 (snd signed_up)
             ''bola@example.com'' ''s3cret'' = Inr ''h.p.l''"
    using l unfolding db' by (simp add: example_body_def)
  have 2: "authenticated_user example_login_decode (- 18000) (snd signed_up) ''h.p.l'' =
             Inl error_invalid_credentials"
    using a unfolding db' by simp
  have 3: "authenticated_user example_login_decode 0 (snd signed_up) ''h.p.l'' =
             Inr example_new_user"
    using a0 unfolding db0 user0 by simp
  show ?thesis
    unfolding signed_up_def [symmetric] using ev 1 2 3 by (intro conjI)
qed

section \<open>Sorting by \<open>last_updated\<close>\<close>

text \<open>
  The key that the code sorts by is a truth value: it is true for every request whose
  submission time is not the zero of the time line, reviewed or not.
\<close>

lemma sql_or_true: "sql_or a (Some True) = Some True"
  by (induction a "Some True" rule: sql_or.induct) simp_all

lemma last_updated_key_constant:
  assumes "submission_time r \<noteq> 0"
  shows "last_updated_key r = Some True"
  using assms by (simp add: last_updated_key_def sql_bool_def sql_or_true)

text \<open>
  C4 says that sorting by \<open>last_updated\<close> places a request by its review time when it
  has one and by its submission time otherwise. On the example store the reviewed
  request (reviewed at 200) and the pending one (submitted at 300) get the same key from
  the code, and the listing returns them in table order in both directions, reviewed
  first; by the key of the specification the descending order is pending first.
\<close>

theorem last_updated_sort_evaluated:
  "spec_last_updated example_reviewed = 200 \<and>
   spec_last_updated example_pending = 300 \<and>
   order_by spec_last_updated False [example_reviewed, example_pending] =
     [example_pending, example_reviewed] \<and>
   last_updated_key example_reviewed = Some True \<and>
   last_updated_key example_pending = Some True \<and>
   paginated_exeats_query example_db (\<lambda>r. True) 1 20 None Sort_last_updated False =
     Inr \<lparr>total_items = 2, total_pages = 1, page_size = 20, current_page = 1,
          items = [example_reviewed, example_pending]\<rparr> \<and>
   paginated_exeats_query example_db (\<lambda>r. True) 1 20 None Sort_last_updated True =
     Inr \<lparr>total_items = 2, total_pages = 1, page_size = 20, current_page = 1,
          items = [example_reviewed, example_pending]\<rparr>"
proof -
  have k: "last_updated_key example_reviewed = Some True"
    "last_updated_key example_pending = Some True"
    by (simp_all add: last_updated_key_def sql_bool_def example_defs)
  have s: "spec_last_updated example_reviewed = 200" "spec_last_updated example_pending = 300"
    by (simp_all add: spec_last_updated_def example_defs)
  have o: "order_by spec_last_updated False [example_reviewed, example_pending] =
             [example_pending, example_reviewed]"
    by (simp add: order_by_def s)
  have f: "filtered_exeats example_db (\<lambda>r. True) None Sort_last_updated asc =
             [example_reviewed, example_pending]" for asc
    by (cases asc)
       (simp_all add: filtered_exeats_def status_matches_def order_by_def k example_db_def)
  have q: "paginated_exeats_query example_db (\<lambda>r. True) 1 20 None Sort_last_updated asc =
     Inr \<lparr>total_items = 2, total_pages = 1, page_size = 20, current_page = 1,
          items = [example_reviewed, example_pending]\<rparr>" for asc
    by (simp add: paginated_exeats_query_def f sql_limit_def sql_offset_def)
  show ?thesis
    using k s o q by simp
qed

section \<open>The sweep of the revocation ledger\<close>

lemma cleanup_at_most_one_expired:
  assumes "length (filter (\<lambda>t. revoked_exp t < now) (revoked_tokens db)) \<le> 1"
  shows "cleanup_expired_revoked_tokens db now =
           (Inr (), db\<lparr>revoked_tokens := filter (\<lambda>t. \<not> revoked_exp t < now) (revoked_tokens db)\<rparr>)"
proof (cases "filter (\<lambda>t. revoked_exp t < now) (revoked_tokens db)")
  case Nil
  then have "\<forall>t \<in> set (revoked_tokens db). \<not> revoked_exp t < now"
    by (simp add: filter_empty_conv)
  then have "filter (\<lambda>t. \<not> revoked_exp t < now) (revoked_tokens db) = revoked_tokens db"
    by (simp add: filter_id_conv)
  with Nil show ?thesis by (simp add: cleanup_expired_revoked_tokens_def)
next
  case (Cons t ts)
  with assms have "ts = []" by simp
  with Cons show ?thesis by (simp add: cleanup_expired_revoked_tokens_def)
qed

lemma cleanup_several_expired:
  assumes "2 \<le> length (filter (\<lambda>t. revoked_exp t < now) (revoked_tokens db))"
  shows "cleanup_expired_revoked_tokens db now = (Inl MultipleResultsFound, db)"
proof (cases "filter (\<lambda>t. revoked_exp t < now) (revoked_tokens db)")
  case Nil
  with assms show ?thesis by simp
next
  case (Cons t ts)
  with assms obtain u us where "ts = u # us" by (cases ts) auto
  with Cons show ?thesis by (simp add: cleanup_expired_revoked_tokens_def)
qed

lemma expired_rejected_swept_or_not:
  assumes "decode token = None"
  shows "authenticated_user decode utc_offset db token = Inl error_invalid_credentials"
    and "authenticated_user decode utc_offset (snd (cleanup_expired_revoked_tokens db now)) token =
           Inl error_invalid_credentials"
  using assms by (simp_all add: authenticated_user_def decoded_token_def)

text \<open>
  C6 says that one run of the sweep deletes every ledger row whose expiry has passed.
  On a ledger with two rows expired at time 100 the sweep fails with
  \<^verbatim>\<open>MultipleResultsFound\<close> and deletes nothing; at time 15, when one row has expired,
  it deletes that row and no other.
\<close>

theorem cleanup_two_expired_evaluated:
  "cleanup_expired_revoked_tokens (example_db\<lparr>revoked_tokens := example_ledger\<rparr>) 100 =
     (Inl MultipleResultsFound, example_db\<lparr>revoked_tokens := example_ledger\<rparr>) \<and>
   filter (\<lambda>t. revoked_exp t < 100) example_ledger =
     [\<lparr>revoked_sig = ''s1'', revoked_exp = 10\<rparr>, \<lparr>revoked_sig = ''s2'', revoked_exp = 20\<rparr>] \<and>
   cleanup_expired_revoked_tokens (example_db\<lparr>revoked_tokens := example_ledger\<rparr>) 15 =
     (Inr (), example_db\<lparr>revoked_tokens :=
        [\<lparr>revoked_sig = ''s2'', revoked_exp = 20\<rparr>, \<lparr>revoked_sig = ''s3'', revoked_exp = 500\<rparr>]\<rparr>)"
  by (simp add: cleanup_expired_revoked_tokens_def example_ledger_def)

end
